theory Spec2Isabelle
  imports Main
begin

section \<open>Strings and numbers of the JavaScript runtime\<close>

text \<open>
  The server is \<^verbatim>\<open>server.js\<close> (the second, MongoDB-backed version in
  \<^verbatim>\<open>src/unnamed/part_001\<close>, lines 1226--2876). Strings are lists of
  characters; a \<^typ>\<open>char\<close> stands for a UTF-16 code unit below 256. The
  functions of this section are the library functions the server calls on strings,
  written out for the arguments it passes.
\<close>

text \<open>\<^verbatim>\<open>String.prototype.startsWith\<close> and \<^verbatim>\<open>includes\<close>.\<close>

fun startsWith :: "string \<Rightarrow> string \<Rightarrow> bool" where
  "startsWith s [] = True"
| "startsWith [] (p # ps) = False"
| "startsWith (c # cs) (p # ps) = (c = p \<and> startsWith cs ps)"

fun includes_str :: "string \<Rightarrow> string \<Rightarrow> bool" where
  "includes_str [] sub = (sub = [])"
| "includes_str (c # cs) sub = (startsWith (c # cs) sub \<or> includes_str cs sub)"

text \<open>
  \<^verbatim>\<open>s.split(sep)\<close> for a separator of one character: the pieces between the
  separators, in order; never the empty array (\<^verbatim>\<open>"".split(" ")\<close> is
  \<^verbatim>\<open>[""]\<close>).
\<close>

fun split :: "char \<Rightarrow> string \<Rightarrow> string list" where
  "split sep [] = [[]]"
| "split sep (c # cs) =
     (if c = sep then [] # split sep cs
      else (c # hd (split sep cs)) # tl (split sep cs))"

text \<open>Array destructuring \<^verbatim>\<open>[a, b] = xs\<close>: a missing element is \<^verbatim>\<open>undefined\<close>.\<close>

fun element :: "'a list \<Rightarrow> nat \<Rightarrow> 'a option" where
  "element [] i = None"
| "element (x # xs) 0 = Some x"
| "element (x # xs) (Suc i) = element xs i"

text \<open>\<^verbatim>\<open>s.padStart(n, c)\<close> for a pad string of one character.\<close>

definition padStart :: "nat \<Rightarrow> char \<Rightarrow> string \<Rightarrow> string" where
  "padStart n c s = replicate (n - length s) c @ s"

text \<open>
  \<^verbatim>\<open>parseInt(s, 10)\<close>: leading white space is skipped, then an optional sign, then
  the longest run of decimal digits; no digit gives \<^verbatim>\<open>NaN\<close>, here \<open>None\<close>. The
  result \<open>Some n\<close> is the mathematical value of the digits.
\<close>

definition isWhiteSpace :: "char \<Rightarrow> bool" where
  "isWhiteSpace c = (of_char c \<in> set [9, 10, 11, 12, 13, 32, 160 :: nat])"

definition isDigit :: "char \<Rightarrow> bool" where
  "isDigit c = (c \<in> set ''0123456789'')"

definition digitValue :: "char \<Rightarrow> int" where
  "digitValue c = of_char c - 48"

definition parseInt :: "string \<Rightarrow> int option" where
  "parseInt s =
     (let t = dropWhile isWhiteSpace s;
          neg = (case t of [] \<Rightarrow> False | c # _ \<Rightarrow> c = CHR ''-'');
          u = (case t of [] \<Rightarrow> [] | c # r \<Rightarrow> if c = CHR ''-'' \<or> c = CHR ''+'' then r else t);
          ds = takeWhile isDigit u
      in if ds = [] then None
         else Some ((if neg then - 1 else 1) * foldl (\<lambda>a c. 10 * a + digitValue c) 0 ds))"

text \<open>\<^verbatim>\<open>Number.prototype.toString\<close> of an integer that a double holds exactly.\<close>

definition digitChar :: "nat \<Rightarrow> char" where
  "digitChar d = ''0123456789'' ! d"

fun digits :: "nat \<Rightarrow> string" where
  "digits n = (if n < 10 then [digitChar n] else digits (n div 10) @ [digitChar (n mod 10)])"

declare digits.simps [simp del]

definition Number_toString :: "int \<Rightarrow> string" where
  "Number_toString n = (if n < 0 then CHR ''-'' # digits (nat (- n)) else digits (nat n))"

section \<open>The runtime's Date\<close>

text \<open>
  What the server takes from the JavaScript runtime and not from its own code. A Date is
  its time value: \<open>Some v\<close> for \<open>v\<close> milliseconds since the epoch, \<open>None\<close> for an
  Invalid Date. How a string is read as a date, and which local day and hour a time value
  falls on, depend on the engine and on the zone of the host; the handlers are modelled
  over any such runtime.
  \<^item> \<open>newDate s\<close> is \<^verbatim>\<open>new Date(s)\<close>;
  \<^item> \<open>getDay v\<close> and \<open>getHours v\<close> are the local day of the week (0 is Sunday) and
    the local hour of a valid Date;
  \<^item> \<open>toLocaleString_Kolkata v\<close> is
    \<^verbatim>\<open>toLocaleString("en-US", {timeZone: "Asia/Kolkata"})\<close> and
    \<open>toLocaleTimeString_Kolkata v\<close> is the \<^verbatim>\<open>toLocaleTimeString\<close> call of the slot
    listing, both of a valid Date;
  \<^item> \<open>toISOString v\<close> is \<^verbatim>\<open>toISOString()\<close> of a valid Date;
  \<^item> \<open>inexactToString n\<close> is what \<^verbatim>\<open>(parseInt(s, 10) + 12).toString()\<close> gives when
    the digits of \<open>s\<close> have the value \<open>n\<close> and \<open>n + 12\<close> is beyond \<open>2 ^ 53\<close>
    in magnitude, where the double rounds.
\<close>

record runtime =
  newDate :: "string \<Rightarrow> int option"
  getDay :: "int \<Rightarrow> nat"
  getHours :: "int \<Rightarrow> nat"
  toLocaleString_Kolkata :: "int \<Rightarrow> string"
  toLocaleTimeString_Kolkata :: "int \<Rightarrow> string"
  toISOString :: "int \<Rightarrow> string"
  inexactToString :: "int \<Rightarrow> string"

text \<open>\<^verbatim>\<open>new Date(v)\<close> of a number: a time value beyond the range of Date is invalid.\<close>

definition timeClip :: "int \<Rightarrow> int option" where
  "timeClip v = (if \<bar>v\<bar> \<le> 8640000000000000 then Some v else None)"

text \<open>The two locale calls on any Date: an Invalid Date prints as such.\<close>

definition Date_toLocaleString :: "runtime \<Rightarrow> int option \<Rightarrow> string" where
  "Date_toLocaleString rt d =
     (case d of None \<Rightarrow> ''Invalid Date'' | Some v \<Rightarrow> toLocaleString_Kolkata rt v)"

definition Date_toLocaleTimeString :: "runtime \<Rightarrow> int option \<Rightarrow> string" where
  "Date_toLocaleTimeString rt d =
     (case d of None \<Rightarrow> ''Invalid Date'' | Some v \<Rightarrow> toLocaleTimeString_Kolkata rt v)"

text \<open>
  \<^verbatim>\<open>(parseInt(hours, 10) + 12).toString()\<close>: \<^verbatim>\<open>NaN\<close> stays \<^verbatim>\<open>NaN\<close>; an
  integer is printed in decimal while the sum is exact.
\<close>

definition plus12_toString :: "runtime \<Rightarrow> int option \<Rightarrow> string" where
  "plus12_toString rt x =
     (case x of
        None \<Rightarrow> ''NaN''
      | Some n \<Rightarrow>
          if \<bar>n\<bar> + 12 \<le> 2 ^ 53 then Number_toString (n + 12) else inexactToString rt n)"

section \<open>The time normaliser\<close>

text \<open>
  \<^verbatim>\<open>convertTo24Hour\<close> (lines 2744--2766, and the same text at 2380--2402). A string
  with neither \<^verbatim>\<open>AM\<close> nor \<^verbatim>\<open>PM\<close> in it is returned as it is. Otherwise the part
  before the first blank is cut at its first colon; hours \<^verbatim>\<open>12\<close> become \<^verbatim>\<open>00\<close>; a
  modifier that is exactly \<^verbatim>\<open>PM\<close> adds 12; a missing minute part prints as
  \<^verbatim>\<open>undefined\<close>.
\<close>

definition convertTo24Hour :: "runtime \<Rightarrow> string \<Rightarrow> string" where
  "convertTo24Hour rt timeInput =
     (if \<not> includes_str timeInput ''AM'' \<and> \<not> includes_str timeInput ''PM'' then timeInput
      else
        let parts = split CHR '' '' timeInput;
            time = hd parts;
            modifier = element parts 1;
            hm = split CHR '':'' time;
            hours = hd hm;
            minutes = element hm 1;
            hours = (if hours = ''12'' then ''00'' else hours);
            hoursStr =
              padStart 2 CHR ''0''
                (if modifier = Some ''PM'' then plus12_toString rt (parseInt hours) else hours)
        in hoursStr @ '':'' @ (case minutes of None \<Rightarrow> ''undefined'' | Some m \<Rightarrow> m))"

text \<open>
  The time strings of the specification, for an hour \<open>h\<close> and a minute \<open>m\<close>:
  \<open>time24 h m\<close> is \<^verbatim>\<open>HH:MM\<close>; \<open>time12 h m\<close> is \<^verbatim>\<open>H:MM AM\<close> or \<^verbatim>\<open>H:MM PM\<close>
  with the hour 12 for midnight and noon; \<open>time12_padded h m\<close> writes that hour with two
  digits.
\<close>

definition two_digits :: "nat \<Rightarrow> string" where
  "two_digits n = padStart 2 CHR ''0'' (digits n)"

definition hour12 :: "nat \<Rightarrow> nat" where
  "hour12 h = (if h mod 12 = 0 then 12 else h mod 12)"

definition meridiem :: "nat \<Rightarrow> string" where
  "meridiem h = (if h < 12 then ''AM'' else ''PM'')"

definition time24 :: "nat \<Rightarrow> nat \<Rightarrow> string" where
  "time24 h m = two_digits h @ '':'' @ two_digits m"

definition time12 :: "nat \<Rightarrow> nat \<Rightarrow> string" where
  "time12 h m = digits (hour12 h) @ '':'' @ two_digits m @ '' '' @ meridiem h"

definition time12_padded :: "nat \<Rightarrow> nat \<Rightarrow> string" where
  "time12_padded h m = two_digits (hour12 h) @ '':'' @ two_digits m @ '' '' @ meridiem h"

section \<open>The slot store\<close>

text \<open>
  The booked slots live in the MongoDB collection \<^verbatim>\<open>bookedSlots\<close> when the handle
  \<^verbatim>\<open>bookedSlotsCollection\<close> is set, and in the global \<^verbatim>\<open>Map\<close> from a date to the
  \<^verbatim>\<open>Set\<close> of its times otherwise (lines 1248--1342).
\<close>

subsection \<open>The collection and the driver\<close>

text \<open>
  A collection is the list of its documents, in insertion order, and whether the unique
  index on \<^verbatim>\<open>{date: 1, time: 1}\<close> exists. Each driver call takes \<open>up\<close>: whether the call
  reaches the server. A call that does not is rejected, and so is an insert that the unique
  index refuses.
\<close>

record doc =
  doc_date :: string
  doc_time :: string
  createdAt :: int
  updatedAt :: int

record collection =
  documents :: "doc list"
  uniqueIndex :: bool

datatype driver_error = DuplicateKey | Unreachable

definition matches :: "string \<Rightarrow> string \<Rightarrow> doc \<Rightarrow> bool" where
  "matches d t x = (doc_date x = d \<and> doc_time x = t)"

definition insertOne :: "bool \<Rightarrow> doc \<Rightarrow> collection \<Rightarrow> driver_error + collection" where
  "insertOne up x c =
     (if \<not> up then Inl Unreachable
      else if uniqueIndex c \<and> find (matches (doc_date x) (doc_time x)) (documents c) \<noteq> None
      then Inl DuplicateKey
      else Inr (c\<lparr>documents := documents c @ [x]\<rparr>))"

definition findOne :: "bool \<Rightarrow> string \<Rightarrow> string \<Rightarrow> collection \<Rightarrow> driver_error + doc option" where
  "findOne up d t c = (if \<not> up then Inl Unreachable else Inr (find (matches d t) (documents c)))"

fun remove_first :: "('a \<Rightarrow> bool) \<Rightarrow> 'a list \<Rightarrow> 'a list" where
  "remove_first P [] = []"
| "remove_first P (x # xs) = (if P x then xs else x # remove_first P xs)"

definition deleteOne :: "bool \<Rightarrow> string \<Rightarrow> string \<Rightarrow> collection \<Rightarrow> driver_error + collection" where
  "deleteOne up d t c =
     (if \<not> up then Inl Unreachable
      else Inr (c\<lparr>documents := remove_first (matches d t) (documents c)\<rparr>))"

definition find_toArray :: "bool \<Rightarrow> string \<Rightarrow> collection \<Rightarrow> driver_error + doc list" where
  "find_toArray up d c =
     (if \<not> up then Inl Unreachable else Inr (filter (\<lambda>x. doc_date x = d) (documents c)))"

definition createIndex :: "bool \<Rightarrow> collection \<Rightarrow> driver_error + collection" where
  "createIndex up c =
     (if \<not> up then Inl Unreachable
      else if \<not> distinct (map (\<lambda>x. (doc_date x, doc_time x)) (documents c)) then Inl DuplicateKey
      else Inr (c\<lparr>uniqueIndex := True\<rparr>))"

subsection \<open>The in-memory fallback\<close>

text \<open>
  A JavaScript \<^verbatim>\<open>Map\<close> is the list of its entries and a \<^verbatim>\<open>Set\<close> the list of its
  members, both in insertion order and without a repeated key or member.
\<close>

definition Map_has :: "('k \<times> 'v) list \<Rightarrow> 'k \<Rightarrow> bool" where
  "Map_has m k = (map_of m k \<noteq> None)"

fun Map_set :: "'k \<Rightarrow> 'v \<Rightarrow> ('k \<times> 'v) list \<Rightarrow> ('k \<times> 'v) list" where
  "Map_set k v [] = [(k, v)]"
| "Map_set k v (e # m) = (if fst e = k then (k, v) # m else e # Map_set k v m)"

definition Set_has :: "'a list \<Rightarrow> 'a \<Rightarrow> bool" where
  "Set_has xs x = (x \<in> set xs)"

definition Set_add :: "'a \<Rightarrow> 'a list \<Rightarrow> 'a list" where
  "Set_add x xs = (if x \<in> set xs then xs else xs @ [x])"

definition Set_delete :: "'a \<Rightarrow> 'a list \<Rightarrow> 'a list" where
  "Set_delete x xs = remove1 x xs"

subsection \<open>The store and its four functions\<close>

text \<open>
  \<open>bookedSlotsCollection\<close> is the module variable of that name (\<open>None\<close> while it is
  \<^verbatim>\<open>undefined\<close>), holding the collection it points to; \<open>bookedSlots\<close> is
  \<^verbatim>\<open>global.bookedSlots\<close> (\<open>None\<close> while it is \<^verbatim>\<open>undefined\<close>).
\<close>

record store =
  bookedSlotsCollection :: "collection option"
  bookedSlots :: "(string \<times> string list) list option"

definition initial_store :: store where
  "initial_store = \<lparr>bookedSlotsCollection = None, bookedSlots = None\<rparr>"

text \<open>
  \<^verbatim>\<open>connectToMongoDB\<close> (lines 1252--1268) against the collection \<open>db\<close> of the database.
  The handle is assigned before the index is created, and the \<^verbatim>\<open>catch\<close> only logs: when
  \<^verbatim>\<open>client.connect()\<close> is rejected the handle stays as it was, and when
  \<^verbatim>\<open>createIndex\<close> is rejected the handle stays set, on a collection without the index.
\<close>

definition connectToMongoDB :: "bool \<Rightarrow> bool \<Rightarrow> collection \<Rightarrow> store \<Rightarrow> store" where
  "connectToMongoDB connectUp indexUp db s =
     (if \<not> connectUp then s
      else case createIndex indexUp db of
             Inr c \<Rightarrow> s\<lparr>bookedSlotsCollection := Some c\<rparr>
           | Inl e \<Rightarrow> s\<lparr>bookedSlotsCollection := Some db\<rparr>)"

text \<open>
  What a call of \<^verbatim>\<open>addBookedSlot\<close> or \<^verbatim>\<open>removeBookedSlot\<close> leaves behind: how its
  promise settles, the line it writes to the console (if any) and the store. Both bodies
  are one \<^verbatim>\<open>try\<close> whose \<^verbatim>\<open>catch\<close> logs the error and returns, so the promise is
  always fulfilled with \<^verbatim>\<open>undefined\<close>.
\<close>

datatype 'a promise = Fulfilled 'a | Rejected string

datatype console =
    Added_To_MongoDB
  | Added_To_Memory
  | Removed_From_MongoDB
  | Removed_From_Memory
  | Error_Logged driver_error

record slot_effect =
  returned :: "unit promise"
  logged :: "console option"
  after :: store

definition the_Map :: "store \<Rightarrow> (string \<times> string list) list" where
  "the_Map s = (case bookedSlots s of None \<Rightarrow> [] | Some m \<Rightarrow> m)"

definition Map_get :: "(string \<times> string list) list \<Rightarrow> string \<Rightarrow> string list" where
  "Map_get m k = (case map_of m k of None \<Rightarrow> [] | Some ts \<Rightarrow> ts)"

text \<open>
  \<^verbatim>\<open>addBookedSlot(date, time)\<close> (lines 1271--1293); \<open>t1\<close> and \<open>t2\<close> are the two
  readings of the clock for \<^verbatim>\<open>createdAt\<close> and \<^verbatim>\<open>updatedAt\<close>.
\<close>

definition addBookedSlot :: "bool \<Rightarrow> int \<Rightarrow> int \<Rightarrow> string \<Rightarrow> string \<Rightarrow> store \<Rightarrow> slot_effect" where
  "addBookedSlot up t1 t2 date time s =
     (case bookedSlotsCollection s of
        Some c \<Rightarrow>
          (case insertOne up \<lparr>doc_date = date, doc_time = time, createdAt = t1, updatedAt = t2\<rparr> c of
             Inr c' \<Rightarrow>
               \<lparr>returned = Fulfilled (), logged = Some Added_To_MongoDB,
                after = s\<lparr>bookedSlotsCollection := Some c'\<rparr>\<rparr>
           | Inl e \<Rightarrow> \<lparr>returned = Fulfilled (), logged = Some (Error_Logged e), after = s\<rparr>)
      | None \<Rightarrow>
          (let m = the_Map s;
               m = (if \<not> Map_has m date then Map_set date [] m else m);
               m = Map_set date (Set_add time (Map_get m date)) m
           in \<lparr>returned = Fulfilled (), logged = Some Added_To_Memory,
               after = s\<lparr>bookedSlots := Some m\<rparr>\<rparr>))"

text \<open>\<^verbatim>\<open>removeBookedSlot(date, time)\<close> (lines 1295--1310).\<close>

definition removeBookedSlot :: "bool \<Rightarrow> string \<Rightarrow> string \<Rightarrow> store \<Rightarrow> slot_effect" where
  "removeBookedSlot up date time s =
     (case bookedSlotsCollection s of
        Some c \<Rightarrow>
          (case deleteOne up date time c of
             Inr c' \<Rightarrow>
               \<lparr>returned = Fulfilled (), logged = Some Removed_From_MongoDB,
                after = s\<lparr>bookedSlotsCollection := Some c'\<rparr>\<rparr>
           | Inl e \<Rightarrow> \<lparr>returned = Fulfilled (), logged = Some (Error_Logged e), after = s\<rparr>)
      | None \<Rightarrow>
          (case bookedSlots s of
             Some m \<Rightarrow>
               if Map_has m date
               then \<lparr>returned = Fulfilled (), logged = Some Removed_From_Memory,
                     after = s\<lparr>bookedSlots := Some (Map_set date (Set_delete time (Map_get m date)) m)\<rparr>\<rparr>
               else \<lparr>returned = Fulfilled (), logged = None, after = s\<rparr>
           | None \<Rightarrow> \<lparr>returned = Fulfilled (), logged = None, after = s\<rparr>))"

text \<open>
  \<^verbatim>\<open>getBookedSlots(date)\<close> (lines 1312--1326) and \<^verbatim>\<open>isSlotBooked(date, time)\<close>
  (lines 1328--1342): the value returned and the store, in which the fallback branch has
  created the \<^verbatim>\<open>Map\<close> if there was none. A rejected driver call gives \<^verbatim>\<open>[]\<close> and
  \<^verbatim>\<open>false\<close>.
\<close>

definition getBookedSlots :: "bool \<Rightarrow> string \<Rightarrow> store \<Rightarrow> string list \<times> store" where
  "getBookedSlots up date s =
     (case bookedSlotsCollection s of
        Some c \<Rightarrow>
          (case find_toArray up date c of
             Inr slots \<Rightarrow> (map doc_time slots, s)
           | Inl e \<Rightarrow> ([], s))
      | None \<Rightarrow>
          (let m = the_Map s
           in (if Map_has m date then Map_get m date else [], s\<lparr>bookedSlots := Some m\<rparr>)))"

definition isSlotBooked :: "bool \<Rightarrow> string \<Rightarrow> string \<Rightarrow> store \<Rightarrow> bool \<times> store" where
  "isSlotBooked up date time s =
     (case bookedSlotsCollection s of
        Some c \<Rightarrow>
          (case findOne up date time c of
             Inr slot \<Rightarrow> (slot \<noteq> None, s)
           | Inl e \<Rightarrow> (False, s))
      | None \<Rightarrow>
          (let m = the_Map s
           in (Map_has m date \<and> Set_has (Map_get m date) time, s\<lparr>bookedSlots := Some m\<rparr>)))"

subsection \<open>Records, sequences of operations and two calls at once\<close>

text \<open>
  The number of BookedSlot records for a date and a time in the storage in use: the
  matching documents of the collection, or the occurrences of the time under the entries
  of the date in the fallback.
\<close>

definition count_records :: "store \<Rightarrow> string \<Rightarrow> string \<Rightarrow> nat" where
  "count_records s d t =
     (case bookedSlotsCollection s of
        Some c \<Rightarrow> length (filter (matches d t) (documents c))
      | None \<Rightarrow>
          length (filter (\<lambda>x. x = t) (concat (map snd (filter (\<lambda>e. fst e = d) (the_Map s))))))"



text \<open>
  A store is well formed when its collection, if the handle is set, has the unique index
  and no two documents with one key, and its fallback is a proper \<^verbatim>\<open>Map\<close> of proper
  \<^verbatim>\<open>Set\<close>s.
\<close>

definition well_formed :: "store \<Rightarrow> bool" where
  "well_formed s =
     ((case bookedSlotsCollection s of
         None \<Rightarrow> True
       | Some c \<Rightarrow> uniqueIndex c \<and> distinct (map (\<lambda>x. (doc_date x, doc_time x)) (documents c))) \<and>
      distinct (map fst (the_Map s)) \<and> list_all (\<lambda>e. distinct (snd e)) (the_Map s))"

text \<open>A reserve or a release with what the call is given, and a sequence of them.\<close>

datatype operation =
    Reserve bool int int string string
  | Release bool string string

fun apply_operation :: "operation \<Rightarrow> store \<Rightarrow> store" where
  "apply_operation (Reserve up t1 t2 d t) s = after (addBookedSlot up t1 t2 d t s)"
| "apply_operation (Release up d t) s = after (removeBookedSlot up d t s)"

fun run :: "operation list \<Rightarrow> store \<Rightarrow> store" where
  "run [] s = s"
| "run (x # xs) s = run xs (apply_operation x s)"

text \<open>
  Two calls of \<^verbatim>\<open>addBookedSlot\<close> for one slot, in flight at once. A call touches the
  store in one step: the fallback branch runs without an \<^verbatim>\<open>await\<close>, and the other
  branch awaits a single \<^verbatim>\<open>insertOne\<close>. So the store takes the step of one call and
  then the step of the other; \<open>first_wins\<close> says that the first call's step comes first.
  The result is what each call returns and the store after both.
\<close>

record call_args =
  call_up :: bool
  call_t1 :: int
  call_t2 :: int

definition concurrent_reserve ::
  "bool \<Rightarrow> call_args \<Rightarrow> call_args \<Rightarrow> string \<Rightarrow> string \<Rightarrow> store \<Rightarrow> unit promise \<times> unit promise \<times> store"
where
  "concurrent_reserve first_wins a b d t s =
     (if first_wins
      then let ea = addBookedSlot (call_up a) (call_t1 a) (call_t2 a) d t s;
               eb = addBookedSlot (call_up b) (call_t1 b) (call_t2 b) d t (after ea)
           in (returned ea, returned eb, after eb)
      else let eb = addBookedSlot (call_up b) (call_t1 b) (call_t2 b) d t s;
               ea = addBookedSlot (call_up a) (call_t1 a) (call_t2 a) d t (after eb)
           in (returned ea, returned eb, after ea))"

section \<open>The availability endpoints\<close>

text \<open>
  A query or body field is a string, or absent (\<open>None\<close>). \<^verbatim>\<open>!x\<close> holds of an absent
  field and of the empty string; \<open>truthy x\<close> is the string of a field that passes the
  test.
\<close>

definition truthy :: "string option \<Rightarrow> string option" where
  "truthy x = (case x of None \<Rightarrow> None | Some v \<Rightarrow> if v = [] then None else Some v)"

definition dayNames :: "string list" where
  "dayNames = [''Sunday'', ''Monday'', ''Tuesday'', ''Wednesday'', ''Thursday'', ''Friday'', ''Saturday'']"

text \<open>\<^verbatim>\<open>dayNames[dayOfWeek]\<close>: \<^verbatim>\<open>undefined\<close> for \<^verbatim>\<open>NaN\<close> and beyond the array.\<close>

definition dayName :: "nat option \<Rightarrow> string option" where
  "dayName d = (case d of None \<Rightarrow> None | Some i \<Rightarrow> element dayNames i)"

subsection \<open>\<^verbatim>\<open>GET /api/check-availability\<close> (lines 2728--2822)\<close>

record availability =
  available :: bool
  message :: string
  av_date :: string
  av_time :: string
  av_dayOfWeek :: "string option"
  av_hour :: "nat option"
  isWeekday :: bool
  isBusinessHours :: bool
  isFuture :: bool

datatype check_response = Check_400 | Check_200 availability

text \<open>
  \<open>now\<close> is the clock read by \<^verbatim>\<open>new Date()\<close> and \<open>up\<close> the outcome of the driver
  call inside \<^verbatim>\<open>isSlotBooked\<close>. A comparison with \<^verbatim>\<open>NaN\<close> is false, so an
  Invalid Date is neither a weekday, nor within business hours, nor in the future.
\<close>

definition check_availability ::
  "runtime \<Rightarrow> int \<Rightarrow> bool \<Rightarrow> string option \<Rightarrow> string option \<Rightarrow> store \<Rightarrow> check_response \<times> store"
where
  "check_availability rt now up date_q time_q s =
     (case (truthy date_q, truthy time_q) of
        (Some date, Some time) \<Rightarrow>
        let time24h = convertTo24Hour rt time;
            selectedDateTime = newDate rt (date @ ''T'' @ time24h @ '':00'');
            dateOnly = newDate rt (date @ ''T00:00:00'');
            dayOfWeek = map_option (getDay rt) dateOnly;
            hour = map_option (getHours rt) selectedDateTime;
            isWeekday = (case dayOfWeek of None \<Rightarrow> False | Some d \<Rightarrow> 1 \<le> d \<and> d \<le> 5);
            isBusinessHours = (case hour of None \<Rightarrow> False | Some h \<Rightarrow> 9 \<le> h \<and> h < 18);
            isFuture = (case selectedDateTime of None \<Rightarrow> False | Some v \<Rightarrow> now < v);
            (isBooked, s') = isSlotBooked up date time24h s;
            available = (isWeekday \<and> isBusinessHours \<and> isFuture \<and> \<not> isBooked);
            message =
              (if \<not> isWeekday then ''Meetings can only be scheduled on weekdays (Monday-Friday)''
               else if \<not> isBusinessHours
               then ''Meetings can only be scheduled between 9:00 AM and 6:00 PM (Noida time)''
               else if \<not> isFuture then ''Cannot schedule meetings in the past''
               else if isBooked then ''This time slot is already booked''
               else ''Time slot is available'')
        in (Check_200
              \<lparr>available = available, message = message, av_date = date, av_time = time,
               av_dayOfWeek = dayName dayOfWeek, av_hour = hour, isWeekday = isWeekday,
               isBusinessHours = isBusinessHours, isFuture = isFuture\<rparr>,
            s')
      | _ \<Rightarrow> (Check_400, s))"


definition on_weekend :: "runtime \<Rightarrow> string \<Rightarrow> bool" where
  "on_weekend rt date =
     (case newDate rt (date @ ''T00:00:00'') of
        None \<Rightarrow> False
      | Some v \<Rightarrow> getDay rt v = 0 \<or> getDay rt v = 6)"



subsection \<open>\<^verbatim>\<open>GET /api/available-slots\<close> (lines 2638--2725)\<close>

record time_slot =
  slot_time :: string
  displayTime :: string
  slot_available :: bool
  reason :: string

text \<open>
  The JSON body of the answer; a field that one of the two answers does not have is
  \<open>None\<close> there. The weekend answer has \<open>available\<close> and \<open>message\<close>, the listing has
  \<open>totalSlots\<close> and \<open>availableSlots\<close>.
\<close>

record slots_body =
  sb_date :: string
  sb_dayOfWeek :: "string option"
  sb_available :: "bool option"
  sb_message :: "string option"
  sb_totalSlots :: "nat option"
  sb_availableSlots :: "nat option"
  slots :: "time_slot list"

datatype slots_response = Slots_400 | Slots_200 slots_body

text \<open>
  The day of the week of the listing: the local midnight of the date, printed in the zone
  of Kolkata and read again as a local time.
\<close>

definition slots_dayOfWeek :: "runtime \<Rightarrow> string \<Rightarrow> nat option" where
  "slots_dayOfWeek rt date =
     (let selectedDate = newDate rt (date @ ''T00:00:00'');
          noidaDate = newDate rt (Date_toLocaleString rt selectedDate)
      in map_option (getDay rt) noidaDate)"

text \<open>
  On a host whose zone is not east of Kolkata, the local midnight of a date is on the same
  date in Kolkata, so printing it there and reading it again keeps the day of the week.
  \<open>kolkata_keeps_day\<close> says that of a date on a host.
\<close>

definition kolkata_keeps_day :: "runtime \<Rightarrow> string \<Rightarrow> bool" where
  "kolkata_keeps_day rt date =
     (case newDate rt (date @ ''T00:00:00'') of
        None \<Rightarrow> False
      | Some v \<Rightarrow>
          (case newDate rt (toLocaleString_Kolkata rt v) of
             None \<Rightarrow> False
           | Some w \<Rightarrow> getDay rt w = getDay rt v))"

text \<open>
  The body of the inner loop, for one \<open>hour\<close> and \<open>minute\<close>: the slot and the store.
  \<open>ups t\<close> is the outcome of the driver call that looks the slot time \<open>t\<close> up.
\<close>

definition slot_at ::
  "runtime \<Rightarrow> int \<Rightarrow> (string \<Rightarrow> bool) \<Rightarrow> string \<Rightarrow> nat \<Rightarrow> nat \<Rightarrow> store \<Rightarrow> time_slot \<times> store"
where
  "slot_at rt now ups date hour minute s =
     (let slotTime = padStart 2 CHR ''0'' (Number_toString (int hour)) @ '':'' @
                     padStart 2 CHR ''0'' (Number_toString (int minute));
          slotDateTime = newDate rt (date @ ''T'' @ slotTime @ '':00'');
          isPast = (case slotDateTime of None \<Rightarrow> False | Some v \<Rightarrow> v \<le> now);
          (isBooked, s') = isSlotBooked (ups slotTime) date slotTime s;
          isAvailable = (\<not> isPast \<and> \<not> isBooked);
          displayTime = Date_toLocaleTimeString rt slotDateTime;
          reason = (if isPast then ''Past time slot''
                    else if isBooked then ''Already booked'' else ''Available'')
      in (\<lparr>slot_time = slotTime, displayTime = displayTime, slot_available = isAvailable,
           reason = reason\<rparr>, s'))"

text \<open>
  The two loops, \<^verbatim>\<open>for (let minute = 0; minute < 60; minute += 30)\<close> inside
  \<^verbatim>\<open>for (let hour = 9; hour < 18; hour++)\<close>, on the array \<^verbatim>\<open>timeSlots\<close> and the
  store.
\<close>

function minute_loop ::
  "runtime \<Rightarrow> int \<Rightarrow> (string \<Rightarrow> bool) \<Rightarrow> string \<Rightarrow> nat \<Rightarrow> nat \<Rightarrow> time_slot list \<times> store
     \<Rightarrow> time_slot list \<times> store"
where
  "minute_loop rt now ups date hour minute acc =
     (if minute < 60
      then let (slot, s') = slot_at rt now ups date hour minute (snd acc)
           in minute_loop rt now ups date hour (minute + 30) (fst acc @ [slot], s')
      else acc)"
  by pat_completeness auto
termination
  by (relation "measure (\<lambda>(rt, now, ups, date, hour, minute, acc). 60 - minute)") auto

function hour_loop ::
  "runtime \<Rightarrow> int \<Rightarrow> (string \<Rightarrow> bool) \<Rightarrow> string \<Rightarrow> nat \<Rightarrow> time_slot list \<times> store
     \<Rightarrow> time_slot list \<times> store"
where
  "hour_loop rt now ups date hour acc =
     (if hour < 18
      then hour_loop rt now ups date (hour + 1) (minute_loop rt now ups date hour 0 acc)
      else acc)"
  by pat_completeness auto
termination
  by (relation "measure (\<lambda>(rt, now, ups, date, hour, acc). 18 - hour)") auto

declare minute_loop.simps [simp del] hour_loop.simps [simp del]

definition available_slots ::
  "runtime \<Rightarrow> int \<Rightarrow> (string \<Rightarrow> bool) \<Rightarrow> string option \<Rightarrow> store \<Rightarrow> slots_response \<times> store"
where
  "available_slots rt now ups date_q s =
     (case truthy date_q of
        None \<Rightarrow> (Slots_400, s)
      | Some date \<Rightarrow>
        let dayOfWeek = slots_dayOfWeek rt date
        in if dayOfWeek = Some 0 \<or> dayOfWeek = Some 6
           then (Slots_200
                   \<lparr>sb_date = date, sb_dayOfWeek = dayName dayOfWeek, sb_available = Some False,
                    sb_message = Some ''Meetings can only be scheduled on weekdays (Monday-Friday)'',
                    sb_totalSlots = None, sb_availableSlots = None, slots = []\<rparr>,
                 s)
           else
             let (timeSlots, s') = hour_loop rt now ups date 9 ([], s)
             in (Slots_200
                   \<lparr>sb_date = date, sb_dayOfWeek = dayName dayOfWeek, sb_available = None,
                    sb_message = None, sb_totalSlots = Some (length timeSlots),
                    sb_availableSlots = Some (length (filter slot_available timeSlots)),
                    slots = timeSlots\<rparr>,
                 s'))"

text \<open>The slots of an answer, and its overall flag \<open>available\<close>; a 400 has neither.\<close>

definition listed_slots :: "slots_response \<Rightarrow> time_slot list" where
  "listed_slots r = (case r of Slots_400 \<Rightarrow> [] | Slots_200 b \<Rightarrow> slots b)"

definition overall_available :: "slots_response \<Rightarrow> bool option" where
  "overall_available r = (case r of Slots_400 \<Rightarrow> None | Slots_200 b \<Rightarrow> sb_available b)"

text \<open>
  The slot starts of the specification, every half hour from 09:00 to 17:30, and its
  notion of a past slot: the start of the slot is at or before \<open>now\<close>.
\<close>

definition business_slot_times :: "string list" where
  "business_slot_times =
     [''09:00'', ''09:30'', ''10:00'', ''10:30'', ''11:00'', ''11:30'',
      ''12:00'', ''12:30'', ''13:00'', ''13:30'', ''14:00'', ''14:30'',
      ''15:00'', ''15:30'', ''16:00'', ''16:30'', ''17:00'', ''17:30'']"

definition slot_past :: "runtime \<Rightarrow> int \<Rightarrow> string \<Rightarrow> string \<Rightarrow> bool" where
  "slot_past rt now date t =
     (case newDate rt (date @ ''T'' @ t @ '':00'') of None \<Rightarrow> False | Some v \<Rightarrow> v \<le> now)"

text \<open>
  The slot listed for a slot time \<open>t\<close> when the lookup answers from the store \<open>s\<close>, and
  the store a lookup leaves: the fallback branch creates the \<^verbatim>\<open>Map\<close> if there was
  none.
\<close>

definition slot_for :: "runtime \<Rightarrow> int \<Rightarrow> bool \<Rightarrow> string \<Rightarrow> string \<Rightarrow> store \<Rightarrow> time_slot" where
  "slot_for rt now up date t s =
     \<lparr>slot_time = t,
      displayTime = Date_toLocaleTimeString rt (newDate rt (date @ ''T'' @ t @ '':00'')),
      slot_available = (\<not> slot_past rt now date t \<and> \<not> fst (isSlotBooked up date t s)),
      reason = (if slot_past rt now date t then ''Past time slot''
                else if fst (isSlotBooked up date t s) then ''Already booked''
                else ''Available'')\<rparr>"

definition after_lookup :: "store \<Rightarrow> store" where
  "after_lookup s =
     (case bookedSlotsCollection s of
        Some c \<Rightarrow> s
      | None \<Rightarrow> s\<lparr>bookedSlots := Some (the_Map s)\<rparr>)"

section \<open>The booking endpoint\<close>

subsection \<open>What the handler is given\<close>

text \<open>
  The body of the request and the environment variables that the handler and
  \<^verbatim>\<open>createTeamsMeeting\<close> read.
\<close>

record user_details =
  email :: string

record request =
  selectedDate :: "string option"
  selectedTime :: "string option"
  userDetails :: "user_details option"
  guestEmails :: "string list"
  organizerEmail :: "string option"

record env =
  ORGANIZER_EMAIL :: "string option"
  ADMIN_EMAIL :: "string option"
  TENANT_ID :: "string option"
  CLIENT_ID :: "string option"
  CLIENT_SECRET :: "string option"

record meeting_args =
  subject :: string
  startTime :: string
  endTime :: string
  attendees :: "string list"
  organizer :: string

record meeting =
  meeting_id :: string
  joinUrl :: string
  startDateTime :: string
  endDateTime :: string

text \<open>
  What lies outside the program: the token endpoint of the identity provider, the Graph
  API, \<^verbatim>\<open>Math.random\<close>, and the three senders of mail. A request to the outside
  returns \<open>Inl\<close> the message of the error it throws, or \<open>Inr\<close> what the program reads of
  its answer: the access token, the id of the user, the four fields of the meeting that
  the handler reads, and for a sender the \<^verbatim>\<open>success\<close> field of what it returns.
  \<open>randomId\<close> is \<^verbatim>\<open>Math.random().toString(36).substring(2, 15)\<close>. The senders
  (lines 1645--1840) catch their own errors; the handler calls each inside a \<^verbatim>\<open>try\<close>
  all the same, and \<open>Inl\<close> is an error thrown inside that \<^verbatim>\<open>try\<close>.
\<close>

datatype endpoint =
    Users_OnlineMeetings string
  | Beta_Users_OnlineMeetings string
  | Users_Events string
  | Communications_Calls

record collaborators =
  requestToken :: "string \<Rightarrow> string \<Rightarrow> string \<Rightarrow> string + string"
  getUser :: "string \<Rightarrow> string + string"
  postMeeting :: "endpoint \<Rightarrow> meeting_args \<Rightarrow> string + meeting"
  randomId :: string
  sendEmailNotification :: "string \<Rightarrow> string + bool"
  sendOrganizerNotification :: "string \<Rightarrow> string + bool"
  sendAdminNotification :: "string \<Rightarrow> string + bool"

text \<open>\<^verbatim>\<open>process.env.X || "default"\<close>.\<close>

definition or_default :: "string option \<Rightarrow> string \<Rightarrow> string" where
  "or_default x d = (case truthy x of None \<Rightarrow> d | Some v \<Rightarrow> v)"

subsection \<open>\<^verbatim>\<open>getAccessToken\<close> and \<^verbatim>\<open>createTeamsMeeting\<close> (lines 1347--1640)\<close>

text \<open>
  \<^verbatim>\<open>getAccessToken()\<close> (lines 1347--1378): the mock token when one of the three
  credentials is not configured, and when the request of a token throws.
\<close>

definition getAccessToken :: "env \<Rightarrow> collaborators \<Rightarrow> string" where
  "getAccessToken ev co =
     (case (truthy (TENANT_ID ev), truthy (CLIENT_ID ev), truthy (CLIENT_SECRET ev)) of
        (Some tenant, Some client, Some secret) \<Rightarrow>
          (case requestToken co tenant client secret of
             Inr access_token \<Rightarrow> access_token
           | Inl msg \<Rightarrow> ''mock-token'')
      | _ \<Rightarrow> ''mock-token'')"

text \<open>
  The mock meeting that \<^verbatim>\<open>createTeamsMeeting\<close> builds in two places (lines 1388--1398
  and 1630--1639), with the double quotes of its \<^verbatim>\<open>joinUrl\<close>.
\<close>

definition quoted :: "string \<Rightarrow> string" where
  "quoted x = [CHR 0x22] @ x @ [CHR 0x22]"

definition mockMeeting :: "string \<Rightarrow> meeting_args \<Rightarrow> meeting" where
  "mockMeeting meetingId a =
     \<lparr>meeting_id = meetingId,
      joinUrl = ''https://teams.microsoft.com/l/meetup-join/19:meeting_'' @ meetingId @
                ''@thread.v2/0?context={'' @ quoted ''Tid'' @ '':'' @ quoted ''mock-tenant'' @
                '','' @ quoted ''Oid'' @ '':'' @ quoted (organizer a) @ ''}'',
      startDateTime = startTime a, endDateTime = endTime a\<rparr>"

text \<open>
  The inner \<^verbatim>\<open>try\<close> of \<^verbatim>\<open>createTeamsMeeting\<close> (lines 1400--1622): the user of the
  organizer is looked up, then five requests are tried in turn and the first that succeeds
  gives the meeting. A failed lookup and a fifth failure are thrown again as
  \<^verbatim>\<open>Failed to create meeting. ...\<close>. The check of the licenses between the lookup and
  the requests has a \<^verbatim>\<open>try\<close> of its own and only logs.
\<close>

definition graphMeeting :: "collaborators \<Rightarrow> meeting_args \<Rightarrow> string + meeting" where
  "graphMeeting co a =
     (case getUser co (organizer a) of
        Inl msg \<Rightarrow> Inl (''Failed to create meeting. '' @ msg)
      | Inr userId \<Rightarrow>
     (case postMeeting co (Users_OnlineMeetings userId) a of
        Inr m \<Rightarrow> Inr m
      | Inl error1 \<Rightarrow>
     (case postMeeting co (Users_OnlineMeetings (organizer a)) a of
        Inr m \<Rightarrow> Inr m
      | Inl error2 \<Rightarrow>
     (case postMeeting co (Beta_Users_OnlineMeetings userId) a of
        Inr m \<Rightarrow> Inr m
      | Inl error3 \<Rightarrow>
     (case postMeeting co (Users_Events userId) a of
        Inr m \<Rightarrow> Inr m
      | Inl error4 \<Rightarrow>
     (case postMeeting co Communications_Calls a of
        Inr m \<Rightarrow> Inr m
      | Inl error5 \<Rightarrow> Inl (''Failed to create meeting. '' @ error5)))))))"

text \<open>
  \<^verbatim>\<open>createTeamsMeeting(subject, startTime, endTime, attendees, organizerEmail)\<close>
  (lines 1383--1640). With the mock token it returns a mock meeting. Otherwise it returns
  the meeting of the inner \<^verbatim>\<open>try\<close>, and what that throws is caught by the outer
  \<^verbatim>\<open>catch\<close>, which returns a mock meeting as well. The result is \<open>Inl\<close> for an error
  thrown to the caller.
\<close>

definition createTeamsMeeting :: "env \<Rightarrow> collaborators \<Rightarrow> meeting_args \<Rightarrow> string + meeting" where
  "createTeamsMeeting ev co a =
     (if getAccessToken ev co = ''mock-token''
      then Inr (mockMeeting (randomId co) a)
      else (case graphMeeting co a of
              Inr m \<Rightarrow> Inr m
            | Inl msg \<Rightarrow> Inr (mockMeeting (randomId co) a)))"

subsection \<open>What the handler does\<close>

datatype external_call =
    Create_Meeting meeting_args
  | Send_Email string
  | Send_Organizer string
  | Send_Admin string

record email_result =
  recipient :: string
  success :: bool
  error :: "string option"
  kind :: "string option"

datatype schedule_response =
    Missing_Fields_400
  | Not_Weekday_400 "string option"
  | Outside_Hours_400 "nat option"
  | Meeting_Failed_500 string
  | Internal_500 string
  | Scheduled_200 meeting bool "email_result list"

text \<open>
  The answer, the calls the handler makes in order (\<^verbatim>\<open>createTeamsMeeting\<close> and the
  senders), and the store.
\<close>

record schedule_effect =
  response :: schedule_response
  external :: "external_call list"
  store_after :: store

text \<open>One entry of \<^verbatim>\<open>emailResults\<close>: the \<^verbatim>\<open>try\<close> around a sender.\<close>

definition email_entry :: "(string \<Rightarrow> string + bool) \<Rightarrow> string \<Rightarrow> string option \<Rightarrow> email_result" where
  "email_entry send to k =
     (case send to of
        Inr ok \<Rightarrow> \<lparr>recipient = to, success = ok, error = None, kind = k\<rparr>
      | Inl msg \<Rightarrow> \<lparr>recipient = to, success = False, error = Some msg, kind = k\<rparr>)"

text \<open>\<^verbatim>\<open>[...new Set(xs)]\<close>: the first occurrence of each element, in order.\<close>

definition dedupe :: "'a list \<Rightarrow> 'a list" where
  "dedupe xs = rev (remdups (rev xs))"

text \<open>
  The notifications after the booking (lines 2511--2612): the requester, every other
  attendee, the organizer, and the admin when that is another address. Each is tried on
  its own.
\<close>

definition notifications ::
  "collaborators \<Rightarrow> string \<Rightarrow> string list \<Rightarrow> string \<Rightarrow> string \<Rightarrow> email_result list \<times> external_call list"
where
  "notifications co userEmail invited selectedOrganizerEmail adminEmail =
     (let others = filter (\<lambda>a. a \<noteq> userEmail) (dedupe (invited @ [userEmail]))
      in ([email_entry (sendEmailNotification co) userEmail None] @
          map (\<lambda>a. email_entry (sendEmailNotification co) a None) others @
          [email_entry (sendOrganizerNotification co) selectedOrganizerEmail
             (Some ''organizer_notification'')] @
          (if adminEmail \<noteq> selectedOrganizerEmail
           then [email_entry (sendAdminNotification co) adminEmail (Some ''admin_notification'')]
           else []),
          [Send_Email userEmail] @ map Send_Email others @
          [Send_Organizer selectedOrganizerEmail] @
          (if adminEmail \<noteq> selectedOrganizerEmail then [Send_Admin adminEmail] else [])))"

text \<open>
  \<^verbatim>\<open>POST /api/schedule-discovery-call\<close> (lines 2337--2635). \<open>up\<close>, \<open>t1\<close> and \<open>t2\<close>
  are passed on to \<^verbatim>\<open>addBookedSlot\<close>. The day and the hour are checked as in the
  availability check; \<^verbatim>\<open>NaN\<close> passes both tests, and \<^verbatim>\<open>toISOString\<close> of the
  Invalid Date then throws into the outer \<^verbatim>\<open>catch\<close>. The slot store is not read.
\<close>

definition schedule_discovery_call ::
  "runtime \<Rightarrow> env \<Rightarrow> collaborators \<Rightarrow> bool \<Rightarrow> int \<Rightarrow> int \<Rightarrow> request \<Rightarrow> store \<Rightarrow> schedule_effect"
where
  "schedule_discovery_call rt ev co up t1 t2 req s =
     (case (truthy (selectedDate req), truthy (selectedTime req), userDetails req,
            truthy (Some (case organizerEmail req of
                            None \<Rightarrow> or_default (ORGANIZER_EMAIL ev) ''Swati.Nawani@thrivebrands.ai''
                          | Some e \<Rightarrow> e))) of
        (Some date, Some time, Some user, Some _) \<Rightarrow>
         (let time24h = convertTo24Hour rt time;
              selectedDateTime = newDate rt (date @ ''T'' @ time24h @ '':00'');
              dateOnly = newDate rt (date @ ''T00:00:00'');
              dayOfWeek = map_option (getDay rt) dateOnly;
              hour = map_option (getHours rt) selectedDateTime
          in if dayOfWeek = Some 0 \<or> dayOfWeek = Some 6
             then \<lparr>response = Not_Weekday_400 (dayName dayOfWeek), external = [], store_after = s\<rparr>
             else if (case hour of None \<Rightarrow> False | Some h \<Rightarrow> h < 9 \<or> 18 \<le> h)
             then \<lparr>response = Outside_Hours_400 hour, external = [], store_after = s\<rparr>
             else
               (case newDate rt (date @ ''T'' @ time24h @ '':00+05:30'') of
                  None \<Rightarrow>
                    \<lparr>response = Internal_500 ''Invalid time value'', external = [], store_after = s\<rparr>
                | Some noidaDateTime \<Rightarrow>
                    (case timeClip (noidaDateTime + 30 * 60000) of
                       None \<Rightarrow>
                         \<lparr>response = Internal_500 ''Invalid time value'', external = [],
                          store_after = s\<rparr>
                     | Some endTimeValue \<Rightarrow>
                         let selectedOrganizerEmail =
                               or_default (ORGANIZER_EMAIL ev) ''admin@thrivebrands.ai'';
                             meetingData =
                               \<lparr>subject = ''Discovery Call - Thrive'',
                                startTime = toISOString rt noidaDateTime,
                                endTime = toISOString rt endTimeValue,
                                attendees = email user # guestEmails req,
                                organizer = selectedOrganizerEmail\<rparr>
                         in (case createTeamsMeeting ev co meetingData of
                               Inl msg \<Rightarrow>
                                 \<lparr>response = Meeting_Failed_500 msg,
                                  external = [Create_Meeting meetingData], store_after = s\<rparr>
                             | Inr meeting \<Rightarrow>
                                 let s' = after (addBookedSlot up t1 t2 date time24h s);
                                     adminEmail = or_default (ADMIN_EMAIL ev) ''admin@thrivebrands.ai'';
                                     (emailResults, sent) =
                                       notifications co (email user) (attendees meetingData)
                                         selectedOrganizerEmail adminEmail
                                 in \<lparr>response =
                                        Scheduled_200 meeting (list_ex success emailResults) emailResults,
                                     external = Create_Meeting meetingData # sent,
                                     store_after = s'\<rparr>))))
      | _ \<Rightarrow> \<lparr>response = Missing_Fields_400, external = [], store_after = s\<rparr>)"

section \<open>A host and collaborators for the examples\<close>

text \<open>
  The examples run on a host in the zone of Kolkata (UTC+5:30 all year). Its Date is
  tabulated for the strings the examples read: \<open>kolkata_dates\<close> gives the time value of
  each, in milliseconds since the epoch. 6 September 2025 is a Saturday, 8 September a
  Monday and 9 September a Tuesday.
\<close>

definition kolkata_dates :: "(string \<times> int) list" where
  "kolkata_dates =
     [
      (''2025-09-06T00:00:00'', 1757097000000),
      (''2025-09-08T00:00:00'', 1757269800000),
      (''2025-09-09T00:00:00'', 1757356200000),
      (''2025-09-08T09:00:00'', 1757302200000),
      (''2025-09-08T09:30:00'', 1757304000000),
      (''2025-09-08T10:00:00'', 1757305800000),
      (''2025-09-08T10:30:00'', 1757307600000),
      (''2025-09-08T11:00:00'', 1757309400000),
      (''2025-09-08T11:30:00'', 1757311200000),
      (''2025-09-08T12:00:00'', 1757313000000),
      (''2025-09-08T12:30:00'', 1757314800000),
      (''2025-09-08T13:00:00'', 1757316600000),
      (''2025-09-08T13:30:00'', 1757318400000),
      (''2025-09-08T14:00:00'', 1757320200000),
      (''2025-09-08T14:30:00'', 1757322000000),
      (''2025-09-08T15:00:00'', 1757323800000),
      (''2025-09-08T15:30:00'', 1757325600000),
      (''2025-09-08T16:00:00'', 1757327400000),
      (''2025-09-08T16:30:00'', 1757329200000),
      (''2025-09-08T17:00:00'', 1757331000000),
      (''2025-09-08T17:30:00'', 1757332800000),
      (''2025-09-09T10:00:00'', 1757392200000),
      (''2025-09-09T10:00:00+05:30'', 1757392200000),
      (''2025-09-09T14:00:00'', 1757406600000),
      (''2025-09-09T14:00:00+05:30'', 1757406600000),
      (''2025-09-09T20:00:00'', 1757428200000),
      (''2025-09-06T10:00:00'', 1757133000000),
      (''9/6/2025, 12:00:00 AM'', 1757097000000),
      (''9/8/2025, 12:00:00 AM'', 1757269800000),
      (''9/9/2025, 12:00:00 AM'', 1757356200000)
     ]"

definition kolkata_locale :: "(int \<times> string) list" where
  "kolkata_locale =
     [
      (1757097000000, ''9/6/2025, 12:00:00 AM''),
      (1757269800000, ''9/8/2025, 12:00:00 AM''),
      (1757356200000, ''9/9/2025, 12:00:00 AM'')
     ]"

definition kolkata_iso :: "(int \<times> string) list" where
  "kolkata_iso =
     [
      (1757392200000, ''2025-09-09T04:30:00.000Z''),
      (1757394000000, ''2025-09-09T05:00:00.000Z''),
      (1757406600000, ''2025-09-09T08:30:00.000Z''),
      (1757408400000, ''2025-09-09T09:00:00.000Z'')
     ]"

definition kolkata_local :: "int \<Rightarrow> int" where
  "kolkata_local v = v + 19800000"

definition kolkata_host :: runtime where
  "kolkata_host =
     \<lparr>newDate = map_of kolkata_dates,
      getDay = (\<lambda>v. nat ((kolkata_local v div 86400000 + 4) mod 7)),
      getHours = (\<lambda>v. nat (kolkata_local v mod 86400000 div 3600000)),
      toLocaleString_Kolkata = (\<lambda>v. case map_of kolkata_locale v of None \<Rightarrow> [] | Some l \<Rightarrow> l),
      toLocaleTimeString_Kolkata =
        (\<lambda>v. time12 (nat (kolkata_local v mod 86400000 div 3600000))
                     (nat (kolkata_local v mod 3600000 div 60000))),
      toISOString = (\<lambda>v. case map_of kolkata_iso v of None \<Rightarrow> [] | Some l \<Rightarrow> l),
      inexactToString = (\<lambda>n. [])\<rparr>"

text \<open>The evaluation instant of the examples: 1 September 2025, 00:00 in Kolkata.\<close>

definition sample_now :: int where
  "sample_now = 1756665000000"

text \<open>
  A second host, in a zone east of Kolkata: UTC+12 all year. Its Date is tabulated for
  Saturday 6 September 2025. The local midnight of that date is 5:30 PM of Friday
  5 September in Kolkata.
\<close>

definition east_dates :: "(string \<times> int) list" where
  "east_dates =
     [
      (''2025-09-06T00:00:00'', 1757073600000),
      (''2025-09-06T09:00:00'', 1757106000000),
      (''2025-09-06T09:30:00'', 1757107800000),
      (''2025-09-06T10:00:00'', 1757109600000),
      (''2025-09-06T10:30:00'', 1757111400000),
      (''2025-09-06T11:00:00'', 1757113200000),
      (''2025-09-06T11:30:00'', 1757115000000),
      (''2025-09-06T12:00:00'', 1757116800000),
      (''2025-09-06T12:30:00'', 1757118600000),
      (''2025-09-06T13:00:00'', 1757120400000),
      (''2025-09-06T13:30:00'', 1757122200000),
      (''2025-09-06T14:00:00'', 1757124000000),
      (''2025-09-06T14:30:00'', 1757125800000),
      (''2025-09-06T15:00:00'', 1757127600000),
      (''2025-09-06T15:30:00'', 1757129400000),
      (''2025-09-06T16:00:00'', 1757131200000),
      (''2025-09-06T16:30:00'', 1757133000000),
      (''2025-09-06T17:00:00'', 1757134800000),
      (''2025-09-06T17:30:00'', 1757136600000),
      (''9/5/2025, 5:30:00 PM'', 1757050200000)
     ]"

definition east_local :: "int \<Rightarrow> int" where
  "east_local v = v + 43200000"

definition east_host :: runtime where
  "east_host =
     \<lparr>newDate = map_of east_dates,
      getDay = (\<lambda>v. nat ((east_local v div 86400000 + 4) mod 7)),
      getHours = (\<lambda>v. nat (east_local v mod 86400000 div 3600000)),
      toLocaleString_Kolkata =
        (\<lambda>v. if v = 1757073600000 then ''9/5/2025, 5:30:00 PM'' else []),
      toLocaleTimeString_Kolkata =
        (\<lambda>v. time12 (nat (kolkata_local v mod 86400000 div 3600000))
                     (nat (kolkata_local v mod 3600000 div 60000))),
      toISOString = (\<lambda>v. []),
      inexactToString = (\<lambda>n. [])\<rparr>"

text \<open>
  An environment with the three credentials and no address configured, and an outside
  that answers: a token, the user of the organizer, and a meeting for the first request.
  \<open>failing_graph\<close> is the same outside with a Graph API that refuses every request of a
  meeting. \<open>no_env\<close> has nothing configured.
\<close>

definition azure_env :: env where
  "azure_env =
     \<lparr>ORGANIZER_EMAIL = None, ADMIN_EMAIL = None, TENANT_ID = Some ''tenant'',
      CLIENT_ID = Some ''client'', CLIENT_SECRET = Some ''secret''\<rparr>"

definition no_env :: env where
  "no_env =
     \<lparr>ORGANIZER_EMAIL = None, ADMIN_EMAIL = None, TENANT_ID = None, CLIENT_ID = None,
      CLIENT_SECRET = None\<rparr>"

definition working_graph :: collaborators where
  "working_graph =
     \<lparr>requestToken = (\<lambda>tenant client secret. Inr ''token''),
      getUser = (\<lambda>organizerEmail. Inr ''u1''),
      postMeeting =
        (\<lambda>e a. Inr \<lparr>meeting_id = ''m1'',
                      joinUrl = ''https://teams.microsoft.com/l/meetup-join/m1'',
                      startDateTime = startTime a, endDateTime = endTime a\<rparr>),
      randomId = ''k3x9q2m7p1a'',
      sendEmailNotification = (\<lambda>to. Inr True),
      sendOrganizerNotification = (\<lambda>to. Inr True),
      sendAdminNotification = (\<lambda>to. Inr True)\<rparr>"

definition failing_graph :: collaborators where
  "failing_graph = working_graph\<lparr>postMeeting := (\<lambda>e a. Inl ''Forbidden'')\<rparr>"

definition sample_request :: "string \<Rightarrow> string \<Rightarrow> request" where
  "sample_request d t =
     \<lparr>selectedDate = Some d, selectedTime = Some t,
      userDetails = Some \<lparr>email = ''john.doe@example.com''\<rparr>, guestEmails = [],
      organizerEmail = None\<rparr>"

text \<open>
  Stores for the examples: the fallback with booked slots, the empty collection without
  index, and a store whose handle points to a collection with the unique index.
\<close>

definition memory_store :: "(string \<times> string list) list \<Rightarrow> store" where
  "memory_store m = \<lparr>bookedSlotsCollection = None, bookedSlots = Some m\<rparr>"

definition empty_collection :: collection where
  "empty_collection = \<lparr>documents = [], uniqueIndex = False\<rparr>"



text \<open>
  The driver calls of a listing, by the slot time looked up: all reach the server, or all
  are rejected.
\<close>

definition reachable :: "string \<Rightarrow> bool" where
  "reachable t = True"


section \<open>The time normaliser is the identity on 24-hour strings and inverts the 12-hour forms\<close>

lemma digits_small: "n < 10 \<Longrightarrow> digits n = [digitChar n]"
  by (simp add: digits.simps)

lemma digits_two: "10 \<le> n \<Longrightarrow> n < 100 \<Longrightarrow> digits n = [digitChar (n div 10), digitChar (n mod 10)]"
  by (subst digits.simps) (simp add: digits_small)

lemma two_digits_eq: "n < 100 \<Longrightarrow> two_digits n = [digitChar (n div 10), digitChar (n mod 10)]"
  by (cases "n < 10") (simp_all add: two_digits_def padStart_def digits_small digits_two digitChar_def)

lemma dc: "digitChar 0 = CHR ''0''" "digitChar 1 = CHR ''1''" "digitChar 2 = CHR ''2''" "digitChar 3 = CHR ''3''"
 "digitChar 4 = CHR ''4''" "digitChar 5 = CHR ''5''" "digitChar 6 = CHR ''6''" "digitChar 7 = CHR ''7''"
 "digitChar 8 = CHR ''8''" "digitChar 9 = CHR ''9''" "digitChar (Suc 0) = CHR ''1''"
  by (simp_all add: digitChar_def)

lemma lt10: "(d::nat) < 10 \<Longrightarrow> d \<in> {0,1,2,3,4,5,6,7,8,9}"
  by auto

lemma split_no_sep: "sep \<notin> set xs \<Longrightarrow> split sep xs = [xs]"
  by (induction xs) auto

lemma split_at_sep: "sep \<notin> set xs \<Longrightarrow> split sep (xs @ sep # ys) = xs # split sep ys"
  by (induction xs) auto

lemma split_not_Nil: "split sep s \<noteq> []"
  by (induction s) auto

lemma startsWith_not_in: "p \<notin> set s \<Longrightarrow> \<not> startsWith s (p # ps)"
  by (cases s) auto

lemma includes_not_in: "p \<notin> set s \<Longrightarrow> \<not> includes_str s (p # ps)"
  by (induction s) auto

lemma includes_append: "includes_str ys sub \<Longrightarrow> includes_str (xs @ ys) sub"
  by (induction xs) auto


lemma convertTo24Hour_parts:
  assumes "includes_str s ''AM'' \<or> includes_str s ''PM''"
    and "split CHR '' '' s = t # mer # rest"
    and "split CHR '':'' t = hs # ms # rest'"
  shows "convertTo24Hour rt s =
         padStart 2 CHR ''0''
           (if mer = ''PM'' then plus12_toString rt (parseInt (if hs = ''12'' then ''00'' else hs))
            else (if hs = ''12'' then ''00'' else hs)) @ '':'' @ ms"
  using assms by (auto simp add: convertTo24Hour_def Let_def)

lemma convertTo24Hour_12h:
  assumes "CHR '' '' \<notin> set hs" "CHR '':'' \<notin> set hs" "CHR '' '' \<notin> set ms"
    and "mer = ''AM'' \<or> mer = ''PM''" and "CHR '':'' \<notin> set ms"
  shows "convertTo24Hour rt (hs @ '':'' @ ms @ '' '' @ mer) =
         padStart 2 CHR ''0''
           (if mer = ''PM'' then plus12_toString rt (parseInt (if hs = ''12'' then ''00'' else hs))
            else (if hs = ''12'' then ''00'' else hs)) @ '':'' @ ms"
proof (rule convertTo24Hour_parts)
  show "includes_str (hs @ '':'' @ ms @ '' '' @ mer) ''AM'' \<or>
        includes_str (hs @ '':'' @ ms @ '' '' @ mer) ''PM''"
    using assms(4) by (auto intro!: includes_append)
  have "split CHR '' '' ((hs @ '':'' @ ms) @ CHR '' '' # mer) = (hs @ '':'' @ ms) # split CHR '' '' mer"
    using assms by (intro split_at_sep) auto
  moreover have "split CHR '' '' mer = [mer]"
    using assms(4) by auto
  ultimately show "split CHR '' '' (hs @ '':'' @ ms @ '' '' @ mer) = (hs @ '':'' @ ms) # mer # []"
    by simp
  have "split CHR '':'' (hs @ CHR '':'' # ms) = hs # split CHR '':'' ms"
    using assms by (intro split_at_sep) auto
  then show "split CHR '':'' (hs @ '':'' @ ms) = hs # ms # []"
    using assms(5) by (simp add: split_no_sep)
qed


lemma digit_chars:
  assumes "d < 10"
  shows "digitChar d \<noteq> CHR '' ''" "digitChar d \<noteq> CHR '':''" "digitChar d \<noteq> CHR ''A''"
    "digitChar d \<noteq> CHR ''P''"
  using lt10 [OF assms] by (auto simp: dc)

lemma two_digits_chars:
  assumes "n < 100"
  shows "CHR '' '' \<notin> set (two_digits n)" "CHR '':'' \<notin> set (two_digits n)"
    "CHR ''A'' \<notin> set (two_digits n)" "CHR ''P'' \<notin> set (two_digits n)"
proof -
  have "n div 10 < 10" "n mod 10 < 10"
    using assms by simp_all
  then show "CHR '' '' \<notin> set (two_digits n)" "CHR '':'' \<notin> set (two_digits n)"
    "CHR ''A'' \<notin> set (two_digits n)" "CHR ''P'' \<notin> set (two_digits n)"
    using assms digit_chars [of "n div 10"] digit_chars [of "n mod 10"]
    by (auto simp add: two_digits_eq)
qed

lemma convertTo24Hour_24h:
  assumes "h < 100" "m < 100"
  shows "convertTo24Hour rt (time24 h m) = time24 h m"
proof -
  have "CHR ''A'' \<notin> set (time24 h m)" "CHR ''P'' \<notin> set (time24 h m)"
    using assms by (simp_all add: time24_def two_digits_chars)
  then show ?thesis
    by (simp add: convertTo24Hour_def includes_not_in)
qed

lemma lt24: "(h::nat) < 24 \<Longrightarrow> h \<in> {0,1,2,3,4,5,6,7,8,9,10,11,12,13,14,15,16,17,18,19,20,21,22,23}"
  by simp arith

lemma convertTo24Hour_time12:
  assumes "h < 24" "m < 60"
  shows "convertTo24Hour rt (time12 h m) = time24 h m"
proof -
  have ms: "CHR '' '' \<notin> set (two_digits m)" "CHR '':'' \<notin> set (two_digits m)"
    using assms by (simp_all add: two_digits_chars)
  have mer: "meridiem h = ''AM'' \<or> meridiem h = ''PM''"
    by (simp add: meridiem_def)
  have hs: "CHR '' '' \<notin> set (digits (hour12 h))" "CHR '':'' \<notin> set (digits (hour12 h))"
    using lt24 [OF assms(1)] by (elim insertE emptyE; simp add: hour12_def digits_small digits_two dc)+
  have "convertTo24Hour rt (digits (hour12 h) @ '':'' @ two_digits m @ '' '' @ meridiem h) =
        padStart 2 CHR ''0''
           (if meridiem h = ''PM'' then plus12_toString rt (parseInt (if digits (hour12 h) = ''12'' then ''00'' else digits (hour12 h)))
            else (if digits (hour12 h) = ''12'' then ''00'' else digits (hour12 h))) @ '':'' @ two_digits m"
    by (rule convertTo24Hour_12h [OF hs ms(1) mer ms(2)])
  also have "padStart 2 CHR ''0''
           (if meridiem h = ''PM'' then plus12_toString rt (parseInt (if digits (hour12 h) = ''12'' then ''00'' else digits (hour12 h)))
            else (if digits (hour12 h) = ''12'' then ''00'' else digits (hour12 h))) = two_digits h"
    using lt24 [OF assms(1)]
    by (elim insertE emptyE; simp add: hour12_def meridiem_def digits_small digits_two dc two_digits_def padStart_def
        parseInt_def isWhiteSpace_def isDigit_def digitValue_def plus12_toString_def Number_toString_def)
  finally show ?thesis
    by (simp add: time12_def time24_def)
qed

lemma convertTo24Hour_time12_padded:
  assumes "h < 24" "m < 60"
  shows "convertTo24Hour rt (time12_padded h m) = time24 h m"
proof -
  have ms: "CHR '' '' \<notin> set (two_digits m)" "CHR '':'' \<notin> set (two_digits m)"
    using assms by (simp_all add: two_digits_chars)
  have mer: "meridiem h = ''AM'' \<or> meridiem h = ''PM''"
    by (simp add: meridiem_def)
  have "hour12 h < 100"
    by (simp add: hour12_def) arith
  then have hs: "CHR '' '' \<notin> set (two_digits (hour12 h))" "CHR '':'' \<notin> set (two_digits (hour12 h))"
    by (simp_all add: two_digits_chars)
  have "convertTo24Hour rt (two_digits (hour12 h) @ '':'' @ two_digits m @ '' '' @ meridiem h) =
        padStart 2 CHR ''0''
           (if meridiem h = ''PM''
            then plus12_toString rt
                   (parseInt (if two_digits (hour12 h) = ''12'' then ''00'' else two_digits (hour12 h)))
            else (if two_digits (hour12 h) = ''12'' then ''00'' else two_digits (hour12 h))) @
        '':'' @ two_digits m"
    by (rule convertTo24Hour_12h [OF hs ms(1) mer ms(2)])
  also have "padStart 2 CHR ''0''
           (if meridiem h = ''PM''
            then plus12_toString rt
                   (parseInt (if two_digits (hour12 h) = ''12'' then ''00'' else two_digits (hour12 h)))
            else (if two_digits (hour12 h) = ''12'' then ''00'' else two_digits (hour12 h))) =
        two_digits h"
    using lt24 [OF assms(1)]
    by (elim insertE emptyE; simp add: hour12_def meridiem_def digits_small digits_two dc
        two_digits_def padStart_def parseInt_def isWhiteSpace_def isDigit_def digitValue_def
        plus12_toString_def Number_toString_def)
  finally show ?thesis
    by (simp add: time12_padded_def time24_def)
qed

text \<open>
  C7. For every hour \<open>h < 24\<close> and minute \<open>m < 60\<close>, the normaliser returns the 24-hour
  string \<^verbatim>\<open>HH:MM\<close> unchanged and maps its 12-hour forms, \<^verbatim>\<open>H:MM AM|PM\<close> and the
  same with a two-digit hour, to it: 12 AM gives hour 00, 12 PM stays 12, any other PM
  hour has 12 added.
\<close>

theorem convertTo24Hour_normalises:
  assumes "h < 24" and "m < 60"
  shows "convertTo24Hour rt (time24 h m) = time24 h m \<and>
         convertTo24Hour rt (time12 h m) = time24 h m \<and>
         convertTo24Hour rt (time12_padded h m) = time24 h m"
  using assms
  by (simp add: convertTo24Hour_24h convertTo24Hour_time12 convertTo24Hour_time12_padded)

theorem convertTo24Hour_normalises_witness:
  "time24 14 5 = ''14:05'' \<and> time12 14 5 = ''2:05 PM'' \<and> time12_padded 14 5 = ''02:05 PM'' \<and>
   convertTo24Hour kolkata_host ''14:05'' = ''14:05'' \<and>
   convertTo24Hour kolkata_host ''2:05 PM'' = ''14:05'' \<and>
   convertTo24Hour kolkata_host ''02:05 PM'' = ''14:05'' \<and>
   time12 0 30 = ''12:30 AM'' \<and> convertTo24Hour kolkata_host ''12:30 AM'' = ''00:30'' \<and>
   time12 12 0 = ''12:00 PM'' \<and> convertTo24Hour kolkata_host ''12:00 PM'' = ''12:00''"
proof -
  have t: "time24 14 5 = ''14:05''" "time12 14 5 = ''2:05 PM''" "time12_padded 14 5 = ''02:05 PM''"
    "time12 0 30 = ''12:30 AM''" "time24 0 30 = ''00:30''"
    "time12 12 0 = ''12:00 PM''" "time24 12 0 = ''12:00''"
    by (simp_all add: time24_def time12_def time12_padded_def two_digits_def padStart_def
        digits_small digits_two dc hour12_def meridiem_def)
  show ?thesis
    using convertTo24Hour_normalises [of 14 5 kolkata_host]
      convertTo24Hour_normalises [of 0 30 kolkata_host]
      convertTo24Hour_normalises [of 12 0 kolkata_host]
    by (simp add: t)
qed

section \<open>What a reserve and a release do to the store\<close>

lemma map_of_Map_set: "map_of (Map_set k v m) = (map_of m)(k \<mapsto> v)"
  by (induction m) (auto simp: fun_eq_iff)

lemma find_append_no: "\<not> P x \<Longrightarrow> find P (xs @ [x]) = find P xs"
  by (induction xs) auto

lemma find_append_yes: "P x \<Longrightarrow> find P (xs @ [x]) \<noteq> None"
  by (induction xs) auto

lemma find_remove_first: "(\<And>x. Q x \<Longrightarrow> \<not> P x) \<Longrightarrow> find P (remove_first Q xs) = find P xs"
  by (induction xs) auto

lemma returned_add: "returned (addBookedSlot up t1 t2 d t s) = Fulfilled ()"
  by (simp add: addBookedSlot_def Let_def split: option.splits sum.splits)

lemma returned_remove: "returned (removeBookedSlot up d t s) = Fulfilled ()"
  by (simp add: removeBookedSlot_def Let_def split: option.splits sum.splits)

lemma isSlotBooked_memory:
  "bookedSlotsCollection s = None \<Longrightarrow>
   fst (isSlotBooked up d t s) = (case map_of (the_Map s) d of None \<Rightarrow> False | Some ts \<Rightarrow> t \<in> set ts)"
  by (simp add: isSlotBooked_def Let_def Map_has_def Set_has_def Map_get_def split: option.splits)

lemma isSlotBooked_mongo:
  "bookedSlotsCollection s = Some c \<Longrightarrow>
   fst (isSlotBooked up d t s) = (up \<and> find (matches d t) (documents c) \<noteq> None)"
  by (simp add: isSlotBooked_def findOne_def)

lemma add_memory:
  "bookedSlotsCollection s = None \<Longrightarrow>
   after (addBookedSlot up t1 t2 d t s) =
     s\<lparr>bookedSlots := Some (Map_set d (Set_add t (Map_get (the_Map s) d)) (if Map_has (the_Map s) d then the_Map s else Map_set d [] (the_Map s)))\<rparr>"
  by (simp add: addBookedSlot_def Let_def Map_get_def Map_has_def map_of_Map_set)

lemma add_memory_lookup:
  assumes "bookedSlotsCollection s = None"
  shows "map_of (the_Map (after (addBookedSlot up t1 t2 d t s))) =
         (map_of (the_Map s))(d \<mapsto> Set_add t (Map_get (the_Map s) d))"
  using assms by (auto simp add: add_memory the_Map_def map_of_Map_set fun_eq_iff)

lemma add_keeps_handle:
  "(bookedSlotsCollection (after (addBookedSlot up t1 t2 d t s)) = None) = (bookedSlotsCollection s = None)"
  by (simp add: addBookedSlot_def Let_def split: option.splits sum.splits)

lemma remove_keeps_handle:
  "(bookedSlotsCollection (after (removeBookedSlot up d t s)) = None) = (bookedSlotsCollection s = None)"
  by (simp add: removeBookedSlot_def Let_def split: option.splits sum.splits)

lemma remove_memory_lookup:
  assumes "bookedSlotsCollection s = None"
  shows "map_of (the_Map (after (removeBookedSlot up d t s))) =
         (if Map_has (the_Map s) d then (map_of (the_Map s))(d \<mapsto> Set_delete t (Map_get (the_Map s) d))
          else map_of (the_Map s))"
  using assms
  by (auto simp add: removeBookedSlot_def the_Map_def map_of_Map_set Map_has_def fun_eq_iff split: option.splits)

lemma add_mongo_find:
  assumes "bookedSlotsCollection s = Some c" and "(d', t') \<noteq> (d, t)"
  shows "\<exists>c'. bookedSlotsCollection (after (addBookedSlot up t1 t2 d t s)) = Some c' \<and>
              find (matches d' t') (documents c') = find (matches d' t') (documents c)"
proof -
  have "\<not> matches d' t' \<lparr>doc_date = d, doc_time = t, createdAt = t1, updatedAt = t2\<rparr>"
    using assms(2) by (auto simp: matches_def)
  then show ?thesis
    using assms(1) by (simp add: addBookedSlot_def insertOne_def find_append_no)
qed

lemma remove_mongo_find:
  assumes "bookedSlotsCollection s = Some c" and "(d', t') \<noteq> (d, t)"
  shows "\<exists>c'. bookedSlotsCollection (after (removeBookedSlot up d t s)) = Some c' \<and>
              find (matches d' t') (documents c') = find (matches d' t') (documents c)"
proof -
  have "\<And>x. matches d t x \<Longrightarrow> \<not> matches d' t' x"
    using assms(2) by (auto simp: matches_def)
  then have "find (matches d' t') (remove_first (matches d t) (documents c)) =
             find (matches d' t') (documents c)"
    by (rule find_remove_first)
  then show ?thesis
    using assms(1) by (simp add: removeBookedSlot_def deleteOne_def)
qed

lemma add_memory_other:
  assumes "bookedSlotsCollection s = None" and "(d', t') \<noteq> (d, t)"
  shows "fst (isSlotBooked up' d' t' (after (addBookedSlot up t1 t2 d t s))) =
         fst (isSlotBooked up' d' t' s)"
proof -
  have a: "bookedSlotsCollection (after (addBookedSlot up t1 t2 d t s)) = None"
    using assms(1) by (simp add: add_keeps_handle)
  show ?thesis
    unfolding isSlotBooked_memory [OF a] isSlotBooked_memory [OF assms(1)]
      add_memory_lookup [OF assms(1)]
    using assms(2) by (auto simp add: Set_add_def Map_get_def split: option.splits)
qed

lemma remove_memory_other:
  assumes "bookedSlotsCollection s = None" and "(d', t') \<noteq> (d, t)"
  shows "fst (isSlotBooked up' d' t' (after (removeBookedSlot up d t s))) =
         fst (isSlotBooked up' d' t' s)"
proof -
  have r: "bookedSlotsCollection (after (removeBookedSlot up d t s)) = None"
    using assms(1) by (simp add: remove_keeps_handle)
  show ?thesis
    unfolding isSlotBooked_memory [OF r] isSlotBooked_memory [OF assms(1)]
      remove_memory_lookup [OF assms(1)]
    using assms(2)
    by (auto simp add: Set_delete_def Map_get_def Map_has_def split: option.splits)
qed

text \<open>
  C10. A reserve or a release of one slot leaves the booked status of every other slot as
  it was: for \<open>(d', t')\<close> other than \<open>(d, t)\<close>, \<^verbatim>\<open>isSlotBooked(d', t')\<close> answers the
  same before and after \<^verbatim>\<open>addBookedSlot(d, t)\<close>, and before and after
  \<^verbatim>\<open>removeBookedSlot(d, t)\<close>, in any store and whatever the driver calls do.
\<close>

theorem other_slots_unchanged:
  assumes "(d', t') \<noteq> (d, t)"
  shows "fst (isSlotBooked up' d' t' (after (addBookedSlot up t1 t2 d t s))) =
           fst (isSlotBooked up' d' t' s) \<and>
         fst (isSlotBooked up' d' t' (after (removeBookedSlot up d t s))) =
           fst (isSlotBooked up' d' t' s)"
proof (cases "bookedSlotsCollection s")
  case None
  then show ?thesis
    using assms by (simp add: add_memory_other remove_memory_other)
next
  case (Some c)
  obtain ca where ca: "bookedSlotsCollection (after (addBookedSlot up t1 t2 d t s)) = Some ca"
    "find (matches d' t') (documents ca) = find (matches d' t') (documents c)"
    using add_mongo_find [OF Some assms] by blast
  obtain cr where cr: "bookedSlotsCollection (after (removeBookedSlot up d t s)) = Some cr"
    "find (matches d' t') (documents cr) = find (matches d' t') (documents c)"
    using remove_mongo_find [OF Some assms] by blast
  show ?thesis
    by (simp add: isSlotBooked_mongo [OF ca(1)] isSlotBooked_mongo [OF cr(1)]
        isSlotBooked_mongo [OF Some] ca(2) cr(2))
qed


lemma find_None_iff: "(find P xs = None) = (\<forall>x\<in>set xs. \<not> P x)"
  by (induction xs) auto

lemma find_append_keeps: "find P xs \<noteq> None \<Longrightarrow> find P (xs @ ys) \<noteq> None"
  by (induction xs) auto

lemma add_books:
  assumes "bookedSlotsCollection s = None \<or> up"
  shows "fst (isSlotBooked True d t (after (addBookedSlot up t1 t2 d t s)))"
proof (cases "bookedSlotsCollection s")
  case None
  have a: "bookedSlotsCollection (after (addBookedSlot up t1 t2 d t s)) = None"
    using None by (simp add: add_keeps_handle)
  show ?thesis
    unfolding isSlotBooked_memory [OF a] add_memory_lookup [OF None]
    by (simp add: Set_add_def)
next
  case (Some c)
  have m: "matches d t \<lparr>doc_date = d, doc_time = t, createdAt = t1, updatedAt = t2\<rparr>"
    by (simp add: matches_def)
  show ?thesis
    using Some assms
      find_append_yes [of "matches d t" "\<lparr>doc_date = d, doc_time = t, createdAt = t1, updatedAt = t2\<rparr>"
        "documents c", OF m]
    by (auto simp add: isSlotBooked_def findOne_def addBookedSlot_def insertOne_def)
qed

lemma add_keeps_booked:
  assumes "fst (isSlotBooked True d t s)"
  shows "fst (isSlotBooked True d t (after (addBookedSlot up t1 t2 d' t' s)))"
proof (cases "bookedSlotsCollection s")
  case None
  have a: "bookedSlotsCollection (after (addBookedSlot up t1 t2 d' t' s)) = None"
    using None by (simp add: add_keeps_handle)
  show ?thesis
    using assms
    unfolding isSlotBooked_memory [OF a] isSlotBooked_memory [OF None] add_memory_lookup [OF None]
    by (auto simp add: Set_add_def Map_get_def split: option.splits)
next
  case (Some c)
  show ?thesis
    using Some assms
    by (auto simp add: isSlotBooked_def findOne_def addBookedSlot_def insertOne_def
        find_append_keeps)
qed

lemma logged_add_cases:
  "logged (addBookedSlot up t1 t2 d t s) = Some Added_To_Memory \<and> bookedSlotsCollection s = None \<or>
   logged (addBookedSlot up t1 t2 d t s) = Some Added_To_MongoDB \<and> bookedSlotsCollection s \<noteq> None \<and> up \<or>
   (\<exists>e. logged (addBookedSlot up t1 t2 d t s) = Some (Error_Logged e)) \<and>
     after (addBookedSlot up t1 t2 d t s) = s"
  by (auto simp add: addBookedSlot_def insertOne_def Let_def split: option.splits)

theorem other_slots_unchanged_witness:
  "(''2025-09-09'', ''10:30'') \<noteq> (''2025-09-09'', ''10:00'') \<and>
   fst (isSlotBooked True ''2025-09-09'' ''10:30''
          (after (addBookedSlot True 1 2 ''2025-09-09'' ''10:00''
                    (memory_store [(''2025-09-09'', [''10:30''])])))) \<and>
   fst (isSlotBooked True ''2025-09-09'' ''10:30''
          (after (removeBookedSlot True ''2025-09-09'' ''10:00''
                    (memory_store [(''2025-09-09'', [''10:30'', ''10:00''])]))))"
proof -
  have b: "fst (isSlotBooked True ''2025-09-09'' ''10:30'' (memory_store [(''2025-09-09'', [''10:30''])]))"
    "fst (isSlotBooked True ''2025-09-09'' ''10:30''
            (memory_store [(''2025-09-09'', [''10:30'', ''10:00''])]))"
    by (simp_all add: isSlotBooked_def memory_store_def the_Map_def Map_has_def Map_get_def
        Set_has_def)
  show ?thesis
    using b
      other_slots_unchanged [of "''2025-09-09''" "''10:30''" "''2025-09-09''" "''10:00''" True True 1 2
        "memory_store [(''2025-09-09'', [''10:30''])]"]
      other_slots_unchanged [of "''2025-09-09''" "''10:30''" "''2025-09-09''" "''10:00''" True True 1 2
        "memory_store [(''2025-09-09'', [''10:30'', ''10:00''])]"]
    by simp
qed

text \<open>
  C2, as amended. After an \<^verbatim>\<open>addBookedSlot(d, t)\<close> that logged the slot as added,
  \<^verbatim>\<open>isSlotBooked(d, t)\<close> answers true when its lookup reaches the store. A second
  \<^verbatim>\<open>addBookedSlot(d, t)\<close> does not fail: its promise is fulfilled like the first one's,
  and the slot stays booked.
\<close>

theorem reserve_then_booked:
  assumes "logged (addBookedSlot up t1 t2 d t s) = Some Added_To_MongoDB \<or>
           logged (addBookedSlot up t1 t2 d t s) = Some Added_To_Memory"
  shows "fst (isSlotBooked True d t (after (addBookedSlot up t1 t2 d t s))) \<and>
         returned (addBookedSlot up' t3 t4 d t (after (addBookedSlot up t1 t2 d t s))) = Fulfilled () \<and>
         fst (isSlotBooked True d t
                (after (addBookedSlot up' t3 t4 d t (after (addBookedSlot up t1 t2 d t s)))))"
proof -
  have "bookedSlotsCollection s = None \<or> up"
    using assms logged_add_cases [of up t1 t2 d t s] by auto
  then have b: "fst (isSlotBooked True d t (after (addBookedSlot up t1 t2 d t s)))"
    by (rule add_books)
  show ?thesis
    using b add_keeps_booked [OF b] by (simp add: returned_add)
qed

theorem reserve_then_booked_witness:
  "logged (addBookedSlot True 1 2 ''2025-09-09'' ''10:00'' initial_store) = Some Added_To_Memory \<and>
   fst (isSlotBooked True ''2025-09-09'' ''10:00''
          (after (addBookedSlot True 1 2 ''2025-09-09'' ''10:00'' initial_store))) \<and>
   returned (addBookedSlot True 3 4 ''2025-09-09'' ''10:00''
               (after (addBookedSlot True 1 2 ''2025-09-09'' ''10:00'' initial_store))) = Fulfilled ()"
proof -
  have l: "logged (addBookedSlot True 1 2 ''2025-09-09'' ''10:00'' initial_store) = Some Added_To_Memory"
    by (simp add: addBookedSlot_def initial_store_def Let_def)
  show ?thesis
    using l reserve_then_booked [of True 1 2 "''2025-09-09''" "''10:00''" initial_store True 3 4]
    by simp
qed

text \<open>
  C2 as stated fails: on the fallback the second reserve of a booked slot logs the slot as
  added once more, and on a collection with the unique index the duplicate key error is
  logged and swallowed; in both the caller gets a fulfilled promise.
\<close>

theorem second_reserve_does_not_fail:
  "fst (isSlotBooked True ''2025-09-09'' ''10:00''
          (after (addBookedSlot True 1 2 ''2025-09-09'' ''10:00'' initial_store))) \<and>
   returned (addBookedSlot True 3 4 ''2025-09-09'' ''10:00''
               (after (addBookedSlot True 1 2 ''2025-09-09'' ''10:00'' initial_store))) = Fulfilled () \<and>
   logged (addBookedSlot True 3 4 ''2025-09-09'' ''10:00''
               (after (addBookedSlot True 1 2 ''2025-09-09'' ''10:00'' initial_store))) = Some Added_To_Memory \<and>
   returned (addBookedSlot True 3 4 ''2025-09-09'' ''10:00''
               (after (addBookedSlot True 1 2 ''2025-09-09'' ''10:00''
                  (connectToMongoDB True True empty_collection initial_store)))) = Fulfilled () \<and>
   logged (addBookedSlot True 3 4 ''2025-09-09'' ''10:00''
               (after (addBookedSlot True 1 2 ''2025-09-09'' ''10:00''
                  (connectToMongoDB True True empty_collection initial_store)))) =
     Some (Error_Logged DuplicateKey)"
  by (simp add: addBookedSlot_def isSlotBooked_def initial_store_def Let_def the_Map_def
      Map_has_def Map_get_def Set_add_def Set_has_def connectToMongoDB_def createIndex_def
      empty_collection_def insertOne_def matches_def)


section \<open>One record for a date and a time\<close>

lemma map_fst_Map_set:
  "map fst (Map_set k v m) = (if k \<in> fst ` set m then map fst m else map fst m @ [k])"
  by (induction m) auto

lemma list_all_Map_set: "P (k, v) \<Longrightarrow> list_all P m \<Longrightarrow> list_all P (Map_set k v m)"
  by (induction m) auto

lemma Map_get_distinct: "list_all (\<lambda>e. distinct (snd e)) m \<Longrightarrow> distinct (Map_get m k)"
proof (cases "map_of m k")
  case None
  then show ?thesis by (simp add: Map_get_def)
next
  case (Some ts)
  assume a: "list_all (\<lambda>e. distinct (snd e)) m"
  from Some have "(k, ts) \<in> set m" by (rule map_of_SomeD)
  with a have "distinct ts" by (auto simp: list_all_iff)
  with Some show ?thesis by (simp add: Map_get_def)
qed

lemma distinct_Set_add: "distinct xs \<Longrightarrow> distinct (Set_add x xs)"
  by (simp add: Set_add_def)

lemma distinct_Set_delete: "distinct xs \<Longrightarrow> distinct (Set_delete x xs)"
  by (simp add: Set_delete_def)

lemma distinct_map_remove_first: "distinct (map f xs) \<Longrightarrow> distinct (map f (remove_first P xs))"
proof (induction xs)
  case Nil
  then show ?case by simp
next
  case (Cons x xs)
  have "set (remove_first P xs) \<subseteq> set xs"
    by (induction xs) auto
  with Cons show ?case by auto
qed

lemma the_Map_update: "the_Map (s\<lparr>bookedSlots := Some m\<rparr>) = m"
  by (simp add: the_Map_def)

lemma well_formed_add:
  assumes "well_formed s"
  shows "well_formed (after (addBookedSlot up t1 t2 d t s))"
proof (cases "bookedSlotsCollection s")
  case None
  let ?m = "the_Map s"
  let ?m1 = "if Map_has ?m d then ?m else Map_set d [] ?m"
  have wf: "distinct (map fst ?m)" "list_all (\<lambda>e. distinct (snd e)) ?m"
    using assms by (simp_all add: well_formed_def)
  have m1: "distinct (map fst ?m1)" "list_all (\<lambda>e. distinct (snd e)) ?m1"
    using wf by (auto simp add: map_fst_Map_set list_all_Map_set)
  have sd: "distinct (snd (d, Set_add t (Map_get ?m d)))"
    using wf(2) by (simp add: distinct_Set_add Map_get_distinct)
  have "list_all (\<lambda>e. distinct (snd e)) (Map_set d (Set_add t (Map_get ?m d)) ?m1)"
    using sd m1(2) by (rule list_all_Map_set)
  moreover have "distinct (map fst (Map_set d (Set_add t (Map_get ?m d)) ?m1))"
    using m1(1) by (simp add: map_fst_Map_set)
  ultimately show ?thesis
    using None by (simp add: add_memory [OF None] well_formed_def the_Map_update)
next
  case (Some c)
  have "find (matches d t) (documents c) = None \<Longrightarrow>
        (d, t) \<notin> set (map (\<lambda>x. (doc_date x, doc_time x)) (documents c))"
    by (auto simp add: find_None_iff matches_def)
  then show ?thesis
    using Some assms
    by (auto simp add: well_formed_def addBookedSlot_def insertOne_def the_Map_def)
qed

lemma well_formed_remove:
  assumes "well_formed s"
  shows "well_formed (after (removeBookedSlot up d t s))"
proof (cases "bookedSlotsCollection s")
  case None
  show ?thesis
  proof (cases "bookedSlots s")
    case N: None
    then show ?thesis
      using None assms by (simp add: removeBookedSlot_def)
  next
    case (Some m)
    have m: "the_Map s = m"
      using Some by (simp add: the_Map_def)
    have wf: "distinct (map fst m)" "list_all (\<lambda>e. distinct (snd e)) m"
      using assms m by (simp_all add: well_formed_def)
    have sd: "distinct (snd (d, Set_delete t (Map_get m d)))"
      using wf(2) by (simp add: distinct_Set_delete Map_get_distinct)
    have "list_all (\<lambda>e. distinct (snd e)) (Map_set d (Set_delete t (Map_get m d)) m)"
      using sd wf(2) by (rule list_all_Map_set)
    moreover have "distinct (map fst (Map_set d (Set_delete t (Map_get m d)) m))"
      using wf(1) by (simp add: map_fst_Map_set)
    ultimately show ?thesis
      using None Some assms
      by (simp add: removeBookedSlot_def well_formed_def the_Map_update)
  qed
next
  case (Some c)
  then show ?thesis
    using assms
    by (auto simp add: well_formed_def removeBookedSlot_def deleteOne_def the_Map_def
        distinct_map_remove_first)
qed

lemma well_formed_run: "well_formed s \<Longrightarrow> well_formed (run ops s)"
proof (induction ops arbitrary: s)
  case Nil
  then show ?case by simp
next
  case (Cons x xs)
  have "well_formed (apply_operation x s)"
    using Cons.prems by (cases x) (simp_all add: well_formed_add well_formed_remove)
  then show ?case
    by (simp add: Cons.IH)
qed

lemma filter_key_le_1: "distinct (map f xs) \<Longrightarrow> length (filter (\<lambda>x. f x = k) xs) \<le> 1"
proof (induction xs)
  case Nil
  then show ?case by simp
next
  case (Cons x xs)
  show ?case
  proof (cases "f x = k")
    case True
    have "f x \<notin> f ` set xs"
      using Cons.prems by simp
    then have "\<And>y. y \<in> set xs \<Longrightarrow> f y \<noteq> k"
      unfolding True [symmetric] by (metis imageI)
    then have "filter (\<lambda>x. f x = k) xs = []"
      by (simp add: filter_empty_conv)
    with True show ?thesis by simp
  next
    case False
    with Cons show ?thesis by simp
  qed
qed

lemma filter_key_cases:
  assumes "distinct (map fst m)"
  shows "filter (\<lambda>e. fst e = d) m = [] \<or> (\<exists>ts. filter (\<lambda>e. fst e = d) m = [(d, ts)] \<and> (d, ts) \<in> set m)"
proof -
  have "length (filter (\<lambda>e. fst e = d) m) \<le> 1"
    using assms by (rule filter_key_le_1)
  then consider "filter (\<lambda>e. fst e = d) m = []" | e where "filter (\<lambda>e. fst e = d) m = [e]"
    by (cases "filter (\<lambda>e. fst e = d) m") (auto simp add: length_Suc_conv)
  then show ?thesis
  proof cases
    case 1
    then show ?thesis by simp
  next
    case 2
    then have "e \<in> set (filter (\<lambda>e. fst e = d) m)" by simp
    then have "fst e = d" "e \<in> set m" by simp_all
    with 2 show ?thesis by (cases e) auto
  qed
qed

lemma well_formed_count: 
  assumes "well_formed s"
  shows "count_records s d t \<le> 1"
proof (cases "bookedSlotsCollection s")
  case None
  have wf: "distinct (map fst (the_Map s))" "list_all (\<lambda>e. distinct (snd e)) (the_Map s)"
    using assms by (simp_all add: well_formed_def)
  from filter_key_cases [OF wf(1), of d] show ?thesis
  proof
    assume "filter (\<lambda>e. fst e = d) (the_Map s) = []"
    then show ?thesis using None by (simp add: count_records_def)
  next
    assume "\<exists>ts. filter (\<lambda>e. fst e = d) (the_Map s) = [(d, ts)] \<and> (d, ts) \<in> set (the_Map s)"
    then obtain ts where ts: "filter (\<lambda>e. fst e = d) (the_Map s) = [(d, ts)]" "(d, ts) \<in> set (the_Map s)"
      by blast
    then have "distinct ts"
      using wf(2) by (auto simp add: list_all_iff)
    then have "distinct (map (\<lambda>x. x) ts)" by simp
    then have "length (filter (\<lambda>x. (\<lambda>x. x) x = t) ts) \<le> 1"
      by (rule filter_key_le_1)
    then show ?thesis
      using None ts(1) by (simp add: count_records_def)
  qed
next
  case (Some c)
  have "distinct (map (\<lambda>x. (doc_date x, doc_time x)) (documents c))"
    using assms Some by (simp add: well_formed_def)
  then have "length (filter (\<lambda>x. (doc_date x, doc_time x) = (d, t)) (documents c)) \<le> 1"
    by (rule filter_key_le_1)
  moreover have "(\<lambda>x. (doc_date x, doc_time x) = (d, t)) = matches d t"
    by (auto simp add: matches_def fun_eq_iff)
  ultimately show ?thesis
    using Some by (simp add: count_records_def)
qed

lemma well_formed_connect:
  "connectUp \<longrightarrow> indexUp \<Longrightarrow>
   distinct (map (\<lambda>x. (doc_date x, doc_time x)) (documents db)) \<Longrightarrow>
   well_formed (connectToMongoDB connectUp indexUp db initial_store)"
  by (auto simp add: connectToMongoDB_def createIndex_def well_formed_def initial_store_def the_Map_def)


text \<open>
  The uniqueness invariant, where it holds: from a start in which the connection failed
  (the fallback is used) or the unique index was created on a collection without
  duplicates, no sequence of reserves and releases leaves more than one record for a date
  and a time.
\<close>

theorem at_most_one_record:
  assumes "connectUp \<longrightarrow> indexUp"
    and "distinct (map (\<lambda>x. (doc_date x, doc_time x)) (documents db))"
  shows "count_records (run ops (connectToMongoDB connectUp indexUp db initial_store)) d t \<le> 1"
  using assms by (intro well_formed_count well_formed_run well_formed_connect)

theorem at_most_one_record_witness:
  "count_records
     (run [Reserve True 1 2 ''2025-09-09'' ''10:00'', Reserve True 3 4 ''2025-09-09'' ''10:00'']
        (connectToMongoDB True True empty_collection initial_store)) ''2025-09-09'' ''10:00'' = 1 \<and>
   count_records
     (run [Reserve True 1 2 ''2025-09-09'' ''10:00'', Reserve True 3 4 ''2025-09-09'' ''10:00'']
        (connectToMongoDB False False empty_collection initial_store)) ''2025-09-09'' ''10:00'' = 1"
proof -
  have "count_records
     (run [Reserve True 1 2 ''2025-09-09'' ''10:00'', Reserve True 3 4 ''2025-09-09'' ''10:00'']
        (connectToMongoDB True True empty_collection initial_store)) ''2025-09-09'' ''10:00'' \<le> 1"
    by (rule at_most_one_record) (simp_all add: empty_collection_def)
  moreover have "count_records
     (run [Reserve True 1 2 ''2025-09-09'' ''10:00'', Reserve True 3 4 ''2025-09-09'' ''10:00'']
        (connectToMongoDB False False empty_collection initial_store)) ''2025-09-09'' ''10:00'' \<le> 1"
    by (rule at_most_one_record) (simp_all add: empty_collection_def)
  moreover have "count_records
     (run [Reserve True 1 2 ''2025-09-09'' ''10:00'', Reserve True 3 4 ''2025-09-09'' ''10:00'']
        (connectToMongoDB True True empty_collection initial_store)) ''2025-09-09'' ''10:00'' \<noteq> 0"
    by (simp add: count_records_def connectToMongoDB_def createIndex_def empty_collection_def
        initial_store_def addBookedSlot_def insertOne_def matches_def)
  moreover have "count_records
     (run [Reserve True 1 2 ''2025-09-09'' ''10:00'', Reserve True 3 4 ''2025-09-09'' ''10:00'']
        (connectToMongoDB False False empty_collection initial_store)) ''2025-09-09'' ''10:00'' \<noteq> 0"
    by (simp add: count_records_def connectToMongoDB_def initial_store_def addBookedSlot_def
        Let_def the_Map_def Map_has_def Map_get_def Set_add_def)
  ultimately show ?thesis
    by linarith
qed

text \<open>
  C8. The invariant fails from the start that \<^verbatim>\<open>connectToMongoDB\<close> leaves when the
  connection succeeds and \<^verbatim>\<open>createIndex\<close> is rejected: the handle is set on a
  collection without the unique index, and two reserves of one slot leave two records.
\<close>

theorem two_records_without_index:
  "count_records
     (run [Reserve True 1 2 ''2025-09-09'' ''10:00'', Reserve True 3 4 ''2025-09-09'' ''10:00'']
        (connectToMongoDB True False empty_collection initial_store)) ''2025-09-09'' ''10:00'' = 2"
  by (simp add: count_records_def connectToMongoDB_def createIndex_def empty_collection_def
      initial_store_def addBookedSlot_def insertOne_def matches_def)

text \<open>
  C9, as amended. Of two calls of \<^verbatim>\<open>addBookedSlot\<close> for one slot in flight at once,
  whichever reaches the store first, both return normally: neither observes an error. In
  a well-formed store at most one record of the slot exists afterwards, and the slot is
  booked afterwards when the fallback is in use or one of the two inserts reached the
  server.
\<close>

theorem concurrent_reserve_both_return:
  assumes "concurrent_reserve first_wins a b d t s = (ra, rb, s')"
  shows "ra = Fulfilled () \<and> rb = Fulfilled () \<and>
         (well_formed s \<longrightarrow> count_records s' d t \<le> 1) \<and>
         (bookedSlotsCollection s = None \<or> call_up a \<or> call_up b \<longrightarrow>
            fst (isSlotBooked True d t s'))"
proof -
  let ?ea = "\<lambda>s. addBookedSlot (call_up a) (call_t1 a) (call_t2 a) d t s"
  let ?eb = "\<lambda>s. addBookedSlot (call_up b) (call_t1 b) (call_t2 b) d t s"
  have wf: "well_formed s \<Longrightarrow> count_records (after (?eb (after (?ea s)))) d t \<le> 1"
    "well_formed s \<Longrightarrow> count_records (after (?ea (after (?eb s)))) d t \<le> 1"
    by (intro well_formed_count well_formed_add; assumption)+
  have h: "(bookedSlotsCollection (after (?ea s)) = None) = (bookedSlotsCollection s = None)"
    "(bookedSlotsCollection (after (?eb s)) = None) = (bookedSlotsCollection s = None)"
    by (simp_all add: add_keeps_handle)
  have ab: "bookedSlotsCollection s = None \<or> call_up a \<or> call_up b \<Longrightarrow>
            fst (isSlotBooked True d t (after (?eb (after (?ea s)))))"
    using add_books [of "after (?ea s)" "call_up b" d t "call_t1 b" "call_t2 b"]
      add_keeps_booked [OF add_books [of s "call_up a" d t "call_t1 a" "call_t2 a"],
        of "call_up b" "call_t1 b" "call_t2 b" d t] h
    by blast
  have ba: "bookedSlotsCollection s = None \<or> call_up a \<or> call_up b \<Longrightarrow>
            fst (isSlotBooked True d t (after (?ea (after (?eb s)))))"
    using add_books [of "after (?eb s)" "call_up a" d t "call_t1 a" "call_t2 a"]
      add_keeps_booked [OF add_books [of s "call_up b" d t "call_t1 b" "call_t2 b"],
        of "call_up a" "call_t1 a" "call_t2 a" d t] h
    by blast
  show ?thesis
    using assms wf ab ba
    by (auto simp add: concurrent_reserve_def Let_def returned_add split: if_splits)
qed

theorem concurrent_reserve_both_return_witness:
  "concurrent_reserve True \<lparr>call_up = True, call_t1 = 1, call_t2 = 2\<rparr>
     \<lparr>call_up = True, call_t1 = 3, call_t2 = 4\<rparr> ''2025-09-09'' ''10:00''
     (connectToMongoDB True True empty_collection initial_store) =
   (Fulfilled (), Fulfilled (),
    \<lparr>bookedSlotsCollection =
       Some \<lparr>documents = [\<lparr>doc_date = ''2025-09-09'', doc_time = ''10:00'', createdAt = 1, updatedAt = 2\<rparr>],
             uniqueIndex = True\<rparr>,
     bookedSlots = None\<rparr>) \<and>
   well_formed (connectToMongoDB True True empty_collection initial_store) \<and>
   count_records
     \<lparr>bookedSlotsCollection =
       Some \<lparr>documents = [\<lparr>doc_date = ''2025-09-09'', doc_time = ''10:00'', createdAt = 1, updatedAt = 2\<rparr>],
             uniqueIndex = True\<rparr>,
     bookedSlots = None\<rparr> ''2025-09-09'' ''10:00'' \<le> 1"
proof -
  have e: "concurrent_reserve True \<lparr>call_up = True, call_t1 = 1, call_t2 = 2\<rparr>
     \<lparr>call_up = True, call_t1 = 3, call_t2 = 4\<rparr> ''2025-09-09'' ''10:00''
     (connectToMongoDB True True empty_collection initial_store) =
   (Fulfilled (), Fulfilled (),
    \<lparr>bookedSlotsCollection =
       Some \<lparr>documents = [\<lparr>doc_date = ''2025-09-09'', doc_time = ''10:00'', createdAt = 1, updatedAt = 2\<rparr>],
             uniqueIndex = True\<rparr>,
     bookedSlots = None\<rparr>)"
    by (simp add: concurrent_reserve_def connectToMongoDB_def createIndex_def empty_collection_def
        initial_store_def addBookedSlot_def insertOne_def matches_def)
  have w: "well_formed (connectToMongoDB True True empty_collection initial_store)"
    by (simp add: well_formed_def connectToMongoDB_def createIndex_def empty_collection_def
        initial_store_def the_Map_def)
  show ?thesis
    using e w concurrent_reserve_both_return [OF e] by simp
qed

text \<open>
  C9 as stated fails: in both orders, on the fallback and on a collection with the unique
  index, the two calls both return a fulfilled promise; no call observes that the slot was
  taken.
\<close>

theorem concurrent_reserve_no_loser:
  "fst (concurrent_reserve True \<lparr>call_up = True, call_t1 = 1, call_t2 = 2\<rparr>
          \<lparr>call_up = True, call_t1 = 3, call_t2 = 4\<rparr> ''2025-09-09'' ''10:00'' initial_store) =
     Fulfilled () \<and>
   fst (snd (concurrent_reserve True \<lparr>call_up = True, call_t1 = 1, call_t2 = 2\<rparr>
          \<lparr>call_up = True, call_t1 = 3, call_t2 = 4\<rparr> ''2025-09-09'' ''10:00'' initial_store)) =
     Fulfilled () \<and>
   fst (concurrent_reserve False \<lparr>call_up = True, call_t1 = 1, call_t2 = 2\<rparr>
          \<lparr>call_up = True, call_t1 = 3, call_t2 = 4\<rparr> ''2025-09-09'' ''10:00''
          (connectToMongoDB True True empty_collection initial_store)) =
     Fulfilled () \<and>
   fst (snd (concurrent_reserve False \<lparr>call_up = True, call_t1 = 1, call_t2 = 2\<rparr>
          \<lparr>call_up = True, call_t1 = 3, call_t2 = 4\<rparr> ''2025-09-09'' ''10:00''
          (connectToMongoDB True True empty_collection initial_store))) =
     Fulfilled ()"
  by (simp add: concurrent_reserve_def connectToMongoDB_def createIndex_def empty_collection_def
      initial_store_def addBookedSlot_def insertOne_def matches_def Let_def)


section \<open>The availability check\<close>

lemma kolkata_convert_24h:
  "convertTo24Hour kolkata_host ''10:00'' = ''10:00''"
  "convertTo24Hour kolkata_host ''20:00'' = ''20:00''"
  by (simp_all add: convertTo24Hour_def)


lemma kolkata_newDate:
  "newDate kolkata_host ''2025-09-06T00:00:00'' = Some 1757097000000"
  "newDate kolkata_host ''2025-09-08T00:00:00'' = Some 1757269800000"
  "newDate kolkata_host ''2025-09-09T00:00:00'' = Some 1757356200000"
  "newDate kolkata_host ''2025-09-08T14:00:00'' = Some 1757320200000"
  "newDate kolkata_host ''2025-09-09T10:00:00'' = Some 1757392200000"
  "newDate kolkata_host ''2025-09-09T20:00:00'' = Some 1757428200000"
  "newDate kolkata_host ''2025-09-06T10:00:00'' = Some 1757133000000"
  "newDate kolkata_host ''2025-09-09T10:00:00+05:30'' = Some 1757392200000"
  "newDate kolkata_host ''9/6/2025, 12:00:00 AM'' = Some 1757097000000"
  "newDate kolkata_host ''9/8/2025, 12:00:00 AM'' = Some 1757269800000"
  by (simp_all add: kolkata_host_def kolkata_dates_def)

lemma kolkata_getDay:
  "getDay kolkata_host 1757097000000 = 6"
  "getDay kolkata_host 1757269800000 = 1"
  "getDay kolkata_host 1757356200000 = 2"
  by (simp_all add: kolkata_host_def kolkata_local_def)

lemma kolkata_getHours:
  "getHours kolkata_host 1757320200000 = 14"
  "getHours kolkata_host 1757392200000 = 10"
  "getHours kolkata_host 1757428200000 = 20"
  "getHours kolkata_host 1757133000000 = 10"
  by (simp_all add: kolkata_host_def kolkata_local_def)








section \<open>The slot listing\<close>

lemma snd_isSlotBooked: "snd (isSlotBooked up d t s) = after_lookup s"
  by (simp add: isSlotBooked_def after_lookup_def Let_def split: option.splits sum.splits)

lemma fst_isSlotBooked_after_lookup:
  "fst (isSlotBooked up d t (after_lookup s)) = fst (isSlotBooked up d t s)"
  by (simp add: isSlotBooked_def after_lookup_def Let_def the_Map_def split: option.splits)

lemma after_lookup_idem: "after_lookup (after_lookup s) = after_lookup s"
  by (simp add: after_lookup_def the_Map_def split: option.splits)

lemma slot_for_after_lookup: "slot_for rt now up date t (after_lookup s) = slot_for rt now up date t s"
  by (simp add: slot_for_def fst_isSlotBooked_after_lookup)

lemma slot_at_eq:
  "slot_at rt now ups date hour minute s =
     (slot_for rt now
        (ups (padStart 2 CHR ''0'' (Number_toString (int hour)) @ '':'' @
              padStart 2 CHR ''0'' (Number_toString (int minute))))
        date
        (padStart 2 CHR ''0'' (Number_toString (int hour)) @ '':'' @
         padStart 2 CHR ''0'' (Number_toString (int minute))) s,
      after_lookup s)"
proof -
  let ?t = "padStart 2 CHR ''0'' (Number_toString (int hour)) @ '':'' @
            padStart 2 CHR ''0'' (Number_toString (int minute))"
  obtain b s' where b: "isSlotBooked (ups ?t) date ?t s = (b, s')"
    by (cases "isSlotBooked (ups ?t) date ?t s")
  have "s' = after_lookup s"
    using snd_isSlotBooked [of "ups ?t" date ?t s] b by simp
  then show ?thesis
    using b by (simp add: slot_at_def slot_for_def slot_past_def Let_def)
qed

lemma slot_time_string:
  "h < 100 \<Longrightarrow> m < 100 \<Longrightarrow>
   padStart 2 CHR ''0'' (Number_toString (int h)) @ '':'' @
   padStart 2 CHR ''0'' (Number_toString (int m)) = time24 h m"
  by (simp add: Number_toString_def time24_def two_digits_def)

lemma slot_at_time24:
  assumes "hour < 100" and "minute < 100"
  shows "slot_at rt now ups date hour minute s =
         (slot_for rt now (ups (time24 hour minute)) date (time24 hour minute) s, after_lookup s)"
  unfolding slot_at_eq slot_time_string [OF assms] by (rule refl)

lemma minute_loop_unrolled:
  assumes "hour < 100"
  shows "minute_loop rt now ups date hour 0 (acc, s) =
         (acc @ [slot_for rt now (ups (time24 hour 0)) date (time24 hour 0) s,
                 slot_for rt now (ups (time24 hour 30)) date (time24 hour 30) s],
          after_lookup s)"
proof -
  have m60: "minute_loop rt now ups date hour 60 (xs, s'') = (xs, s'')" for xs s''
    by (simp add: minute_loop.simps)
  have m30: "minute_loop rt now ups date hour 30 (xs, s'') =
        (xs @ [slot_for rt now (ups (time24 hour 30)) date (time24 hour 30) s''], after_lookup s'')"
    for xs s''
    using assms
    by (subst minute_loop.simps) (simp add: slot_at_time24 m60)
  show ?thesis
    using assms
    by (subst minute_loop.simps)
      (simp add: slot_at_time24 m30 slot_for_after_lookup after_lookup_idem)
qed

lemma time24_values:
  "time24 9 0 = ''09:00''" "time24 9 30 = ''09:30''" "time24 10 0 = ''10:00''"
  "time24 10 30 = ''10:30''" "time24 11 0 = ''11:00''" "time24 11 30 = ''11:30''"
  "time24 12 0 = ''12:00''" "time24 12 30 = ''12:30''" "time24 13 0 = ''13:00''"
  "time24 13 30 = ''13:30''" "time24 14 0 = ''14:00''" "time24 14 30 = ''14:30''"
  "time24 15 0 = ''15:00''" "time24 15 30 = ''15:30''" "time24 16 0 = ''16:00''"
  "time24 16 30 = ''16:30''" "time24 17 0 = ''17:00''" "time24 17 30 = ''17:30''"
  by (simp_all add: time24_def two_digits_def padStart_def digits_small digits_two dc)

lemma hour_loop_unrolled:
  "hour_loop rt now ups date 9 ([], s) =
     (map (\<lambda>t. slot_for rt now (ups t) date t s) business_slot_times, after_lookup s)"
proof -
  have h18: "hour_loop rt now ups date 18 acc = acc" for acc
    by (simp add: hour_loop.simps)
  have step: "hour < 18 \<Longrightarrow>
        hour_loop rt now ups date hour (xs, s') =
        hour_loop rt now ups date (hour + 1)
          (xs @ [slot_for rt now (ups (time24 hour 0)) date (time24 hour 0) s',
                 slot_for rt now (ups (time24 hour 30)) date (time24 hour 30) s'],
           after_lookup s')" for hour xs s'
    by (subst hour_loop.simps) (simp add: minute_loop_unrolled)
  show ?thesis
    by (simp add: step h18 time24_values slot_for_after_lookup after_lookup_idem
        business_slot_times_def)
qed



lemma dayName_Saturday: "dayName (Some 6) = Some ''Saturday''"
  by (simp add: dayName_def dayNames_def eval_nat_numeral)

lemma slots_dayOfWeek_kept:
  assumes "kolkata_keeps_day rt date"
  shows "slots_dayOfWeek rt date = map_option (getDay rt) (newDate rt (date @ ''T00:00:00''))"
  using assms
  by (simp add: kolkata_keeps_day_def slots_dayOfWeek_def Date_toLocaleString_def Let_def
      split: option.splits)

lemma listing_body:
  assumes "truthy date_q = Some date"
    and "slots_dayOfWeek rt date \<noteq> Some 0" and "slots_dayOfWeek rt date \<noteq> Some 6"
  shows "available_slots rt now ups date_q s =
         (Slots_200
            \<lparr>sb_date = date, sb_dayOfWeek = dayName (slots_dayOfWeek rt date),
             sb_available = None, sb_message = None,
             sb_totalSlots =
               Some (length (map (\<lambda>t. slot_for rt now (ups t) date t s) business_slot_times)),
             sb_availableSlots =
               Some (length (filter slot_available
                               (map (\<lambda>t. slot_for rt now (ups t) date t s) business_slot_times))),
             slots = map (\<lambda>t. slot_for rt now (ups t) date t s) business_slot_times\<rparr>,
          after_lookup s)"
  using assms by (simp add: available_slots_def Let_def hour_loop_unrolled)



lemma kolkata_keeps:
  "kolkata_keeps_day kolkata_host ''2025-09-06''"
  "kolkata_keeps_day kolkata_host ''2025-09-08''"
  by (simp_all add: kolkata_keeps_day_def kolkata_newDate)
    (simp_all add: kolkata_host_def kolkata_locale_def kolkata_dates_def kolkata_local_def)



text \<open>
  C4 fails on a host east of Kolkata. There the local midnight of Saturday 6 September
  2025 is still Friday in Kolkata, so the listing takes the date for a Friday: it lists
  the eighteen slots, all available, and gives no overall flag. The availability check on
  the same host reads the day of the date itself and answers that the date is a Saturday.
\<close>

theorem saturday_listed_east_of_kolkata:
  "on_weekend east_host ''2025-09-06'' \<and>
   \<not> kolkata_keeps_day east_host ''2025-09-06'' \<and>
   slots_dayOfWeek east_host ''2025-09-06'' = Some 5 \<and>
   map slot_time
     (listed_slots (fst (available_slots east_host sample_now reachable (Some ''2025-09-06'')
                           initial_store))) = business_slot_times \<and>
   map slot_available
     (listed_slots (fst (available_slots east_host sample_now reachable (Some ''2025-09-06'')
                           initial_store))) = replicate 18 True \<and>
   overall_available (fst (available_slots east_host sample_now reachable (Some ''2025-09-06'')
                             initial_store)) = None \<and>
   fst (check_availability east_host sample_now True (Some ''2025-09-06'') (Some ''10:00'')
          initial_store) =
     Check_200
       \<lparr>available = False,
        message = ''Meetings can only be scheduled on weekdays (Monday-Friday)'',
        av_date = ''2025-09-06'', av_time = ''10:00'', av_dayOfWeek = Some ''Saturday'',
        av_hour = Some 10, isWeekday = False, isBusinessHours = True, isFuture = True\<rparr>"
proof -
  have m: "newDate east_host ''2025-09-06T00:00:00'' = Some 1757073600000"
    "newDate east_host ''2025-09-06T10:00:00'' = Some 1757109600000"
    "newDate east_host ''9/5/2025, 5:30:00 PM'' = Some 1757050200000"
    by (simp_all add: east_host_def east_dates_def)
  have g: "getDay east_host 1757073600000 = 6" "getDay east_host 1757050200000 = 5"
    "getHours east_host 1757109600000 = 10"
    by (simp_all add: east_host_def east_local_def)
  have k: "toLocaleString_Kolkata east_host 1757073600000 = ''9/5/2025, 5:30:00 PM''"
    by (simp add: east_host_def)
  have w: "on_weekend east_host ''2025-09-06''"
    by (simp add: on_weekend_def m g)
  have d: "slots_dayOfWeek east_host ''2025-09-06'' = Some 5"
    by (simp add: slots_dayOfWeek_def Date_toLocaleString_def Let_def m k g)
  have nk: "\<not> kolkata_keeps_day east_host ''2025-09-06''"
    by (simp add: kolkata_keeps_day_def m k g)
  have p: "\<not> slot_past east_host sample_now ''2025-09-06'' t"
    if "t \<in> set business_slot_times" for t
    using that
    by (auto simp add: business_slot_times_def slot_past_def east_host_def east_dates_def
        sample_now_def)
  have b: "\<not> fst (isSlotBooked (reachable t) ''2025-09-06'' t initial_store)" for t
    by (simp add: isSlotBooked_def initial_store_def the_Map_def Map_has_def Let_def)
  have t: "truthy (Some ''2025-09-06'') = Some ''2025-09-06''"
    by (simp add: truthy_def)
  have body: "available_slots east_host sample_now reachable (Some ''2025-09-06'') initial_store =
         (Slots_200
            \<lparr>sb_date = ''2025-09-06'', sb_dayOfWeek = dayName (slots_dayOfWeek east_host ''2025-09-06''),
             sb_available = None, sb_message = None,
             sb_totalSlots =
               Some (length (map (\<lambda>t. slot_for east_host sample_now (reachable t) ''2025-09-06'' t
                                        initial_store) business_slot_times)),
             sb_availableSlots =
               Some (length (filter slot_available
                               (map (\<lambda>t. slot_for east_host sample_now (reachable t) ''2025-09-06'' t
                                          initial_store) business_slot_times))),
             slots = map (\<lambda>t. slot_for east_host sample_now (reachable t) ''2025-09-06'' t
                                initial_store) business_slot_times\<rparr>,
          after_lookup initial_store)"
    by (rule listing_body [OF t]) (simp_all add: d)
  have l: "listed_slots (fst (available_slots east_host sample_now reachable
                                (Some ''2025-09-06'') initial_store)) =
           map (\<lambda>t. slot_for east_host sample_now (reachable t) ''2025-09-06'' t initial_store)
             business_slot_times"
    and o: "overall_available (fst (available_slots east_host sample_now reachable
                                (Some ''2025-09-06'') initial_store)) = None"
    by (simp_all add: body listed_slots_def overall_available_def)
  have a: "map slot_available
             (map (\<lambda>t. slot_for east_host sample_now (reachable t) ''2025-09-06'' t initial_store)
                business_slot_times) = map (\<lambda>t. True) business_slot_times"
    by (simp add: slot_for_def p b)
  have s: "map slot_time
             (map (\<lambda>t. slot_for east_host sample_now (reachable t) ''2025-09-06'' t initial_store)
                business_slot_times) = business_slot_times"
    by (simp add: slot_for_def comp_def)
  have e: "map (\<lambda>t. True) business_slot_times = replicate 18 True"
    by (simp add: business_slot_times_def eval_nat_numeral)
  have c24: "convertTo24Hour east_host ''10:00'' = ''10:00''"
    by (simp add: convertTo24Hour_def)
  have bk: "isSlotBooked True ''2025-09-06'' ''10:00'' initial_store =
            (False, initial_store\<lparr>bookedSlots := Some []\<rparr>)"
    by (simp add: isSlotBooked_def initial_store_def the_Map_def Map_has_def Let_def)
  have c: "fst (check_availability east_host sample_now True (Some ''2025-09-06'') (Some ''10:00'')
                  initial_store) =
           Check_200
             \<lparr>available = False,
              message = ''Meetings can only be scheduled on weekdays (Monday-Friday)'',
              av_date = ''2025-09-06'', av_time = ''10:00'', av_dayOfWeek = Some ''Saturday'',
              av_hour = Some 10, isWeekday = False, isBusinessHours = True, isFuture = True\<rparr>"
    by (simp add: check_availability_def truthy_def c24 m g bk sample_now_def Let_def
        dayName_Saturday)
  have S: "map slot_time
             (listed_slots (fst (available_slots east_host sample_now reachable
                                   (Some ''2025-09-06'') initial_store))) = business_slot_times"
    by (simp only: l s)
  have A: "map slot_available
             (listed_slots (fst (available_slots east_host sample_now reachable
                                   (Some ''2025-09-06'') initial_store))) = replicate 18 True"
    by (simp only: l a e)
  show ?thesis
    using w nk d S A o c by blast
qed

text \<open>
  Where the local midnight of the date is on the same day of the week in Kolkata, a date
  that falls on a Saturday or a Sunday gets no slots and the overall flag \<open>available\<close>
  false; the store is not touched.
\<close>

theorem available_slots_weekend:
  assumes "truthy date_q = Some date"
    and "on_weekend rt date" and "kolkata_keeps_day rt date"
  shows "\<exists>b. available_slots rt now ups date_q s = (Slots_200 b, s) \<and>
             slots b = [] \<and> sb_available b = Some False"
proof -
  have "slots_dayOfWeek rt date = Some 0 \<or> slots_dayOfWeek rt date = Some 6"
    using assms(2) slots_dayOfWeek_kept [OF assms(3)]
    by (auto simp add: on_weekend_def split: option.splits)
  then show ?thesis
    using assms(1) by (auto simp add: available_slots_def Let_def)
qed

theorem available_slots_weekend_witness:
  "truthy (Some ''2025-09-06'') = Some ''2025-09-06'' \<and>
   on_weekend kolkata_host ''2025-09-06'' \<and>
   kolkata_keeps_day kolkata_host ''2025-09-06'' \<and>
   (\<exists>b. available_slots kolkata_host sample_now reachable (Some ''2025-09-06'') initial_store =
          (Slots_200 b, initial_store) \<and>
        slots b = [] \<and> sb_available b = Some False)"
proof -
  have t: "truthy (Some ''2025-09-06'') = Some ''2025-09-06''"
    by (simp add: truthy_def)
  have w: "on_weekend kolkata_host ''2025-09-06''"
    by (simp add: on_weekend_def kolkata_newDate kolkata_getDay)
  show ?thesis
    using t w kolkata_keeps(1)
      available_slots_weekend [OF t w kolkata_keeps(1), of sample_now reachable initial_store]
    by simp
qed

section \<open>The booking handler and the store\<close>


text \<open>With no credentials configured it returns the mock meeting at once.\<close>

lemma no_credentials_mock_meeting:
  "createTeamsMeeting no_env co a = Inr (mockMeeting (randomId co) a)"
  by (simp add: createTeamsMeeting_def getAccessToken_def no_env_def truthy_def)



lemma sample_fields:
  "selectedDate (sample_request d t) = Some d"
  "selectedTime (sample_request d t) = Some t"
  "userDetails (sample_request d t) = Some \<lparr>email = ''john.doe@example.com''\<rparr>"
  "guestEmails (sample_request d t) = []"
  "organizerEmail (sample_request d t) = None"
  by (simp_all add: sample_request_def)

lemma sample_defaults:
  "or_default (ORGANIZER_EMAIL azure_env) x = x"
  "or_default (ADMIN_EMAIL azure_env) x = x"
  by (simp_all add: or_default_def azure_env_def truthy_def)

lemma azure_token:
  "getAccessToken azure_env working_graph = ''token''"
  "getAccessToken azure_env failing_graph = ''token''"
  by (simp_all add: getAccessToken_def azure_env_def working_graph_def failing_graph_def
      truthy_def)

lemma working_graph_meeting:
  "createTeamsMeeting azure_env working_graph a =
     Inr \<lparr>meeting_id = ''m1'', joinUrl = ''https://teams.microsoft.com/l/meetup-join/m1'',
          startDateTime = startTime a, endDateTime = endTime a\<rparr>"
  by (simp add: createTeamsMeeting_def azure_token graphMeeting_def)
    (simp add: working_graph_def)


lemma kolkata_iso_values:
  "toISOString kolkata_host 1757392200000 = ''2025-09-09T04:30:00.000Z''"
  "toISOString kolkata_host 1757394000000 = ''2025-09-09T05:00:00.000Z''"
  by (simp_all add: kolkata_host_def kolkata_iso_def)

lemma sample_notifications:
  "notifications working_graph ''john.doe@example.com'' [''john.doe@example.com'']
     ''admin@thrivebrands.ai'' ''admin@thrivebrands.ai'' =
   ([\<lparr>recipient = ''john.doe@example.com'', success = True, error = None, kind = None\<rparr>,
     \<lparr>recipient = ''admin@thrivebrands.ai'', success = True, error = None,
      kind = Some ''organizer_notification''\<rparr>],
    [Send_Email ''john.doe@example.com'', Send_Organizer ''admin@thrivebrands.ai''])"
  "notifications failing_graph ''john.doe@example.com'' [''john.doe@example.com'']
     ''admin@thrivebrands.ai'' ''admin@thrivebrands.ai'' =
   ([\<lparr>recipient = ''john.doe@example.com'', success = True, error = None, kind = None\<rparr>,
     \<lparr>recipient = ''admin@thrivebrands.ai'', success = True, error = None,
      kind = Some ''organizer_notification''\<rparr>],
    [Send_Email ''john.doe@example.com'', Send_Organizer ''admin@thrivebrands.ai''])"
  by (simp_all add: notifications_def dedupe_def email_entry_def working_graph_def
      failing_graph_def)




text \<open>
  C6. The booking handler does not read the slot store. A request for a slot that is
  booked, on a weekday within business hours, has a second meeting created and is answered
  with success; the store is as before.
\<close>

theorem booked_slot_is_booked_again:
  "fst (isSlotBooked True ''2025-09-09'' ''10:00'' (memory_store [(''2025-09-09'', [''10:00''])])) \<and>
   schedule_discovery_call kolkata_host azure_env working_graph True 1 2
     (sample_request ''2025-09-09'' ''10:00'') (memory_store [(''2025-09-09'', [''10:00''])]) =
   \<lparr>response =
      Scheduled_200
        \<lparr>meeting_id = ''m1'', joinUrl = ''https://teams.microsoft.com/l/meetup-join/m1'',
         startDateTime = ''2025-09-09T04:30:00.000Z'', endDateTime = ''2025-09-09T05:00:00.000Z''\<rparr>
        True
        [\<lparr>recipient = ''john.doe@example.com'', success = True, error = None, kind = None\<rparr>,
         \<lparr>recipient = ''admin@thrivebrands.ai'', success = True, error = None,
          kind = Some ''organizer_notification''\<rparr>],
    external =
      [Create_Meeting
         \<lparr>subject = ''Discovery Call - Thrive'', startTime = ''2025-09-09T04:30:00.000Z'',
          endTime = ''2025-09-09T05:00:00.000Z'', attendees = [''john.doe@example.com''],
          organizer = ''admin@thrivebrands.ai''\<rparr>,
       Send_Email ''john.doe@example.com'', Send_Organizer ''admin@thrivebrands.ai''],
    store_after = memory_store [(''2025-09-09'', [''10:00''])]\<rparr>"
proof -
  have b: "fst (isSlotBooked True ''2025-09-09'' ''10:00''
                  (memory_store [(''2025-09-09'', [''10:00''])]))"
    by (simp add: isSlotBooked_def memory_store_def the_Map_def Map_has_def Map_get_def
        Set_has_def)
  have a: "after (addBookedSlot True 1 2 ''2025-09-09'' ''10:00''
                    (memory_store [(''2025-09-09'', [''10:00''])])) =
           memory_store [(''2025-09-09'', [''10:00''])]"
    by (simp add: addBookedSlot_def memory_store_def the_Map_def Map_has_def Map_get_def
        Set_add_def Let_def)
  show ?thesis
    using b
    by (simp add: schedule_discovery_call_def sample_fields sample_defaults truthy_def
        kolkata_convert_24h kolkata_newDate kolkata_getDay kolkata_getHours timeClip_def
        kolkata_iso_values a sample_notifications working_graph_meeting Let_def)
qed


end
